theory Spec2Isabelle
  imports Complex_Main "HOL-Library.Multiset" "HOL-Library.Log_Nat"
begin

section \<open>The recommendation service of \<^verbatim>\<open>api_service.py\<close>\<close>

text \<open>
  The handler \<^verbatim>\<open>get_hybrid_recommendations\<close> scores every product for one retailer
  with a trained model, keeps the \<^verbatim>\<open>TOP_K_CANDIDATES\<close> best, rescores them with a
  business formula and answers with the first \<^verbatim>\<open>FINAL_LIST_SIZE\<close> of them.

  Conventions of the embedding.
  \<^item> A Python \<^verbatim>\<open>dict\<close> is an association list in insertion order (the order of
    \<^verbatim>\<open>product_map.keys()\<close> decides the order of the batch); a lookup is \<open>map_of\<close>.
  \<^item> An exception is a value \<open>Inl e\<close> of the type \<open>error\<close>.
  \<^item> The module's global variables are the fields of the record \<open>state\<close>, together
    with a trace of what a request does to the outside: the call of the model and the
    lines it prints.
  \<^item> Python floats and the \<^verbatim>\<open>float32\<close> scores of the model are real numbers in
    the pipeline: sums, products and comparisons are exact there, and there is no NaN.
    The rounding of the code's arithmetic is modelled apart, for the margin
    normalisation of line 160 and the business score of line 167, where a claim depends
    on the value of a score.
  \<^item> \<^verbatim>\<open>model.predict\<close> and \<^verbatim>\<open>np.argsort\<close> are library code: they are
    parameters \<open>predict\<close> and \<open>argsort\<close> of the handler, total functions. The
    casts of the batch to \<^verbatim>\<open>int32\<close> and \<^verbatim>\<open>float32\<close> are left to the scorer.
\<close>

subsection \<open>Data\<close>

datatype error =
    HTTPException nat string
  | KeyError string
  | IndexError

text \<open>A row of \<^verbatim>\<open>product_catalog\<close> and a row of \<^verbatim>\<open>retailer_profiles\<close>
  (\<^verbatim>\<open>to_dict('index')\<close> of the two CSV files, lines 72 to 86).\<close>

record product_row =
  Category :: int
  ProfitMargin :: real
  CurrentStock :: int

record retailer_row =
  StoreType :: int
  LocationTier :: int

record RecommendationRequest =
  retailer_id :: string

record RecommendationResponse =
  product_id :: string
  predicted_score :: real
  final_rank :: nat

text \<open>The eight arrays handed to \<^verbatim>\<open>model.predict\<close> (lines 122 to 139), one entry
  per product.\<close>

record model_inputs =
  r_id_input :: "int list"
  st_input :: "int list"
  lt_input :: "int list"
  p_id_input :: "int list"
  llm_vec_input :: "real list list"
  cat_input :: "int list"
  margin_input :: "real list"
  stock_input :: "real list"

text \<open>What a request does besides returning: it calls the model once and prints two
  lines (lines 136, 146 and 183).\<close>

datatype effect =
    Predict model_inputs
  | Print_candidate_generation nat
  | Print_re_ranking nat

text \<open>The globals of the module (lines 18 to 32) and the trace of effects.\<close>

record state =
  TOP_K_CANDIDATES :: nat
  FINAL_LIST_SIZE :: nat
  W_MODEL :: real
  W_PROFIT :: real
  W_STOCK :: real
  retailer_map :: "(string \<times> int) list"
  product_map :: "(string \<times> int) list"
  product_vectors_data :: "(string \<times> real list) list"
  product_catalog :: "(string \<times> product_row) list"
  retailer_profiles :: "(string \<times> retailer_row) list"
  trace :: "effect list"

text \<open>The state after the module is imported and before \<^verbatim>\<open>load_artifacts\<close> has
  run: the configured sizes and weights, and empty tables.\<close>

definition module_globals :: state where
  "module_globals =
     \<lparr>TOP_K_CANDIDATES = 500, FINAL_LIST_SIZE = 10,
      W_MODEL = 0.5, W_PROFIT = 0.3, W_STOCK = 0.2,
      retailer_map = [], product_map = [], product_vectors_data = [],
      product_catalog = [], retailer_profiles = [], trace = []\<rparr>"

subsection \<open>Lookups that raise\<close>

text \<open>\<^verbatim>\<open>d[k]\<close> on a dict raises \<^verbatim>\<open>KeyError(k)\<close> for a missing key.\<close>

definition dict_get :: "(string \<times> 'v) list \<Rightarrow> string \<Rightarrow> error + 'v" where
  "dict_get d k = (case map_of d k of None \<Rightarrow> Inl (KeyError k) | Some v \<Rightarrow> Inr v)"

text \<open>\<^verbatim>\<open>[d[k] for k in ks]\<close>: the first missing key raises.\<close>

fun dict_get_all :: "(string \<times> 'v) list \<Rightarrow> string list \<Rightarrow> error + 'v list" where
  "dict_get_all d [] = Inr []"
| "dict_get_all d (k # ks) =
     (case dict_get d k of
        Inl e \<Rightarrow> Inl e
      | Inr v \<Rightarrow> (case dict_get_all d ks of Inl e \<Rightarrow> Inl e | Inr vs \<Rightarrow> Inr (v # vs)))"

text \<open>\<^verbatim>\<open>[xs[i] for i in idx]\<close> and \<^verbatim>\<open>xs[idx]\<close> with indices that are not
  negative: an index past the end raises \<^verbatim>\<open>IndexError\<close>.\<close>

fun index_all :: "'a list \<Rightarrow> nat list \<Rightarrow> error + 'a list" where
  "index_all xs [] = Inr []"
| "index_all xs (i # idx) =
     (if i < length xs
      then (case index_all xs idx of Inl e \<Rightarrow> Inl e | Inr ys \<Rightarrow> Inr (xs ! i # ys))
      else Inl IndexError)"

subsection \<open>Step 1: candidate generation\<close>

text \<open>Lines 113 to 133: the batch for all products, in the order of
  \<^verbatim>\<open>product_map\<close>. The vectors are looked up first, then the catalog rows; the
  three comprehensions over \<^verbatim>\<open>product_catalog\<close> read the same rows, so the first
  one raises for a missing product or none does.\<close>

definition build_inputs :: "state \<Rightarrow> int \<Rightarrow> retailer_row \<Rightarrow> error + model_inputs" where
  "build_inputs s retailer_idx retailer_data =
     (let st_data_int = StoreType retailer_data;
          lt_data_int = LocationTier retailer_data;
          all_product_ids = map fst (product_map s);
          all_product_indices = map snd (product_map s);
          num_products = length all_product_ids
      in case dict_get_all (product_vectors_data s) all_product_ids of
           Inl e \<Rightarrow> Inl e
         | Inr vectors \<Rightarrow>
             (case dict_get_all (product_catalog s) all_product_ids of
                Inl e \<Rightarrow> Inl e
              | Inr rows \<Rightarrow>
                  Inr \<lparr>r_id_input = replicate num_products retailer_idx,
                       st_input = replicate num_products st_data_int,
                       lt_input = replicate num_products lt_data_int,
                       p_id_input = all_product_indices,
                       llm_vec_input = vectors,
                       cat_input = map Category rows,
                       margin_input = map ProfitMargin rows,
                       stock_input = map (\<lambda>r. real_of_int (CurrentStock r)) rows\<rparr>))"

text \<open>Lines 142 to 144. \<^verbatim>\<open>np.argsort(predictions)[::-1][:k]\<close> reverses the
  ascending permutation and keeps its first \<open>k\<close> indices.\<close>

definition top_indices :: "(real list \<Rightarrow> nat list) \<Rightarrow> nat \<Rightarrow> real list \<Rightarrow> nat list" where
  "top_indices argsort k predictions = take k (rev (argsort predictions))"

definition select_candidates ::
  "(real list \<Rightarrow> nat list) \<Rightarrow> nat \<Rightarrow> real list \<Rightarrow> string list
     \<Rightarrow> error + (real list \<times> string list)" where
  "select_candidates argsort k predictions all_product_ids =
     (let top_indices = top_indices argsort k predictions
      in case index_all predictions top_indices of
           Inl e \<Rightarrow> Inl e
         | Inr candidate_predictions \<Rightarrow>
             (case index_all all_product_ids top_indices of
                Inl e \<Rightarrow> Inl e
              | Inr candidate_pids \<Rightarrow> Inr (candidate_predictions, candidate_pids)))"

text \<open>What NumPy promises of \<^verbatim>\<open>argsort\<close>: a permutation of the indices that puts
  the values in ascending order. The default kind is not stable, so the order among
  equal values is left open.\<close>

definition argsort_spec :: "(real list \<Rightarrow> nat list) \<Rightarrow> bool" where
  "argsort_spec argsort \<longleftrightarrow>
     (\<forall>ps. mset (argsort ps) = mset [0..<length ps] \<and> sorted (map (\<lambda>i. ps ! i) (argsort ps)))"

text \<open>One such function, the stable one, for running the model on examples.\<close>

definition stable_argsort :: "real list \<Rightarrow> nat list" where
  "stable_argsort ps = sort_key (\<lambda>i. ps ! i) [0..<length ps]"

subsection \<open>Step 2: business re-ranking\<close>

text \<open>Lines 160, 161 and 164, in exact arithmetic. \<^verbatim>\<open>np.clip(x, 0, 1)\<close> is the
  minimum of 1 and the maximum of \<open>x\<close> and 0.\<close>

definition normalized_margin :: "real \<Rightarrow> real" where
  "normalized_margin profit_margin = (profit_margin - 0.1) / (0.4 - 0.1)"

definition normalized_stock :: "int \<Rightarrow> real" where
  "normalized_stock current_stock = min 1 (max 0 (real_of_int current_stock / 500))"

definition stock_penalty :: "int \<Rightarrow> real" where
  "stock_penalty current_stock = (if current_stock < 50 then 1.0 else 0.0)"

text \<open>The loop of lines 151 to 169, with the list \<^verbatim>\<open>final_scores\<close> it appends
  to. Each entry is \<^verbatim>\<open>(pid, final_score, score)\<close>. The score of line 167 is
  computed in exact arithmetic here; \<open>float_rerank_loop\<close> below is the same loop in the
  rounded arithmetic of the code. What is proved of the order, the size and the frame of
  the result does not depend on the values of the scores.\<close>

fun rerank_loop ::
  "state \<Rightarrow> (real \<times> string) list \<Rightarrow> (string \<times> real \<times> real) list
     \<Rightarrow> error + (string \<times> real \<times> real) list" where
  "rerank_loop s [] final_scores = Inr final_scores"
| "rerank_loop s ((score, pid) # rest) final_scores =
     (case dict_get (product_catalog s) pid of
        Inl e \<Rightarrow> Inl e
      | Inr p_data \<Rightarrow>
          (let profit_margin = ProfitMargin p_data;
               current_stock = CurrentStock p_data;
               normalized_margin = normalized_margin profit_margin;
               normalized_stock = normalized_stock current_stock;
               stock_penalty = stock_penalty current_stock;
               final_score = (W_MODEL s * score) + (W_PROFIT s * normalized_margin)
                               - (W_STOCK s * stock_penalty)
           in rerank_loop s rest (final_scores @ [(pid, final_score, score)])))"

text \<open>\<^verbatim>\<open>list.sort(key=..., reverse=True)\<close>: CPython reverses the list, sorts it
  stably in ascending order of the key and reverses the result, which keeps entries of
  equal key in their original order.\<close>

definition sort_reverse :: "('a \<Rightarrow> real) \<Rightarrow> 'a list \<Rightarrow> 'a list" where
  "sort_reverse key xs = rev (sort_key key (rev xs))"

text \<open>Lines 149 to 172.\<close>

definition rerank ::
  "state \<Rightarrow> (real \<times> string) list \<Rightarrow> error + (string \<times> real \<times> real) list" where
  "rerank s candidates =
     (case rerank_loop s candidates [] of
        Inl e \<Rightarrow> Inl e
      | Inr final_scores \<Rightarrow> Inr (sort_reverse (\<lambda>x. fst (snd x)) final_scores))"

subsection \<open>Step 3: final output\<close>

text \<open>Lines 175 to 181.\<close>

definition final_output ::
  "nat \<Rightarrow> (string \<times> real \<times> real) list \<Rightarrow> RecommendationResponse list" where
  "final_output n final_scores =
     map (\<lambda>(rank, (pid, final_score, model_score)).
            \<lparr>product_id = pid, predicted_score = model_score, final_rank = rank + 1\<rparr>)
         (enumerate 0 (take n final_scores))"

subsection \<open>The handler\<close>

text \<open>Lines 97 to 184. Line 101 tests the key in \<^verbatim>\<open>retailer_map\<close>; line 105 reads
  it, line 106 reads \<^verbatim>\<open>retailer_profiles\<close>.\<close>

definition get_hybrid_recommendations ::
  "(model_inputs \<Rightarrow> real list) \<Rightarrow> (real list \<Rightarrow> nat list) \<Rightarrow> RecommendationRequest
     \<Rightarrow> state \<Rightarrow> (error + RecommendationResponse list) \<times> state" where
  "get_hybrid_recommendations predict argsort request s =
     (let rid = retailer_id request
      in case map_of (retailer_map s) rid of
           None \<Rightarrow> (Inl (HTTPException 404 ''Retailer not found.''), s)
         | Some retailer_idx \<Rightarrow>
      (case dict_get (retailer_profiles s) rid of
           Inl e \<Rightarrow> (Inl e, s)
         | Inr retailer_data \<Rightarrow>
      (case build_inputs s retailer_idx retailer_data of
           Inl e \<Rightarrow> (Inl e, s)
         | Inr inputs \<Rightarrow>
      (let predictions = predict inputs;
           s1 = s\<lparr>trace := trace s @ [Predict inputs]\<rparr>
       in case select_candidates argsort (TOP_K_CANDIDATES s1) predictions
                 (map fst (product_map s1)) of
            Inl e \<Rightarrow> (Inl e, s1)
          | Inr (candidate_predictions, candidate_pids) \<Rightarrow>
      (let s2 = s1\<lparr>trace := trace s1 @ [Print_candidate_generation (length candidate_pids)]\<rparr>
       in case rerank s2 (zip candidate_predictions candidate_pids) of
            Inl e \<Rightarrow> (Inl e, s2)
          | Inr final_scores \<Rightarrow>
              (Inr (final_output (FINAL_LIST_SIZE s2) final_scores),
               s2\<lparr>trace := trace s2 @ [Print_re_ranking (FINAL_LIST_SIZE s2)]\<rparr>))))))"

subsection \<open>Double precision\<close>

text \<open>
  A Python \<^verbatim>\<open>float\<close> is an IEEE 754 binary64 number; here it is the rational
  number it stands for. An operation returns the exact result rounded to the nearest
  number with a significand of 53 bits, a tie going to the even significand, and a
  decimal literal is the nearest such number. Only the normal range is modelled: no
  overflow, no subnormal numbers, no infinities or NaN. The margins and constants of
  line 160 are far from both ends of the range.
\<close>

text \<open>The nearest integer, ties to even.\<close>

definition round_half_even :: "rat \<Rightarrow> int" where
  "round_half_even x =
     (let n = \<lfloor>x\<rfloor>; d = x - of_int n
      in if d < 1 / 2 then n else if 1 / 2 < d then n + 1 else if even n then n else n + 1)"

text \<open>The exponent \<open>e\<close> with \<open>2 powi e \<le> \<bar>x\<bar> < 2 powi (e + 1)\<close>, for \<open>x \<noteq> 0\<close>: the
  bit lengths of numerator and denominator give it up to one.\<close>

definition binade :: "rat \<Rightarrow> int" where
  "binade x =
     (let (a, b) = quotient_of \<bar>x\<bar>; g = bitlen a - bitlen b
      in if \<bar>x\<bar> < 2 powi g then g - 1 else g)"

text \<open>Rounding to 53 significant bits: the unit in the last place of the binade of
  \<open>x\<close> is \<open>2 powi (binade x - 52)\<close>.\<close>

definition f64_round :: "rat \<Rightarrow> rat" where
  "f64_round x =
     (if x = 0 then 0
      else let ulp = 2 powi (binade x - 52)
           in of_int (round_half_even (x / ulp)) * ulp)"

definition f64_sub :: "rat \<Rightarrow> rat \<Rightarrow> rat" where
  "f64_sub a b = f64_round (a - b)"

definition f64_div :: "rat \<Rightarrow> rat \<Rightarrow> rat" where
  "f64_div a b = f64_round (a / b)"

text \<open>Line 160 as Python evaluates it, for a margin that is a double:
  \<^verbatim>\<open>(profit_margin - 0.1) / (0.4 - 0.1)\<close>. The divisor is not zero.\<close>

definition f64_normalized_margin :: "rat \<Rightarrow> rat" where
  "f64_normalized_margin profit_margin =
     f64_div (f64_sub profit_margin (f64_round (1 / 10)))
             (f64_sub (f64_round (4 / 10)) (f64_round (1 / 10)))"

subsection \<open>Line 167 in floating point\<close>

text \<open>The \<^verbatim>\<open>float32\<close> numbers: 24 significant bits.\<close>

definition f32_round :: "rat \<Rightarrow> rat" where
  "f32_round x =
     (if x = 0 then 0
      else let ulp = 2 powi (binade x - 23)
           in of_int (round_half_even (x / ulp)) * ulp)"

definition f64_mul :: "rat \<Rightarrow> rat \<Rightarrow> rat" where
  "f64_mul a b = f64_round (a * b)"

text \<open>
  The score is a NumPy \<^verbatim>\<open>float32\<close> scalar, the weights and the two products
  \<^verbatim>\<open>W_PROFIT * normalized_margin\<close> and \<^verbatim>\<open>W_STOCK * stock_penalty\<close> are Python floats.
  An operation of a NumPy scalar \<open>a\<close> with a Python float casts the Python float to
  the result type and rounds the result to it. The result type is \<^verbatim>\<open>float32\<close> from
  NumPy 2 on (\<open>rnd = f32_round\<close>) and \<^verbatim>\<open>float64\<close> before (\<open>rnd = f64_round\<close>, which
  leaves a double as it is), so the rounding \<open>rnd\<close> of the result type is a parameter.
\<close>

definition np_mul :: "(rat \<Rightarrow> rat) \<Rightarrow> rat \<Rightarrow> rat \<Rightarrow> rat" where
  "np_mul rnd w a = rnd (rnd w * a)"

definition np_add :: "(rat \<Rightarrow> rat) \<Rightarrow> rat \<Rightarrow> rat \<Rightarrow> rat" where
  "np_add rnd a d = rnd (a + rnd d)"

definition np_sub :: "(rat \<Rightarrow> rat) \<Rightarrow> rat \<Rightarrow> rat \<Rightarrow> rat" where
  "np_sub rnd a d = rnd (a - rnd d)"

text \<open>The loop of lines 151 to 169 in the arithmetic of the code. The catalog gives
  \<^verbatim>\<open>(ProfitMargin, CurrentStock)\<close> for a product, the margin a double; the weights
  are doubles and the scores \<^verbatim>\<open>float32\<close> numbers. \<^verbatim>\<open>current_stock / 500\<close> is the
  correctly rounded quotient of two integers.\<close>

fun float_rerank_loop ::
  "(rat \<Rightarrow> rat) \<Rightarrow> rat \<Rightarrow> rat \<Rightarrow> rat \<Rightarrow> (string \<times> rat \<times> int) list
     \<Rightarrow> (rat \<times> string) list \<Rightarrow> (string \<times> rat \<times> rat) list
     \<Rightarrow> error + (string \<times> rat \<times> rat) list" where
  "float_rerank_loop rnd w_model w_profit w_stock catalog [] final_scores = Inr final_scores"
| "float_rerank_loop rnd w_model w_profit w_stock catalog ((score, pid) # rest) final_scores =
     (case dict_get catalog pid of
        Inl e \<Rightarrow> Inl e
      | Inr (profit_margin, current_stock) \<Rightarrow>
          (let normalized_margin = f64_normalized_margin profit_margin;
               normalized_stock = min 1 (max 0 (f64_div (of_int current_stock) 500));
               stock_penalty = (if current_stock < 50 then 1 else 0);
               final_score =
                 np_sub rnd
                   (np_add rnd (np_mul rnd w_model score) (f64_mul w_profit normalized_margin))
                   (f64_mul w_stock stock_penalty)
           in float_rerank_loop rnd w_model w_profit w_stock catalog rest
                (final_scores @ [(pid, final_score, score)])))"

text \<open>The formula of the specification, in exact arithmetic.\<close>

definition business_score_spec :: "rat \<Rightarrow> rat \<Rightarrow> rat \<Rightarrow> rat \<Rightarrow> rat \<Rightarrow> int \<Rightarrow> rat" where
  "business_score_spec w_model w_profit w_stock model_score profit_margin current_stock =
     w_model * model_score + w_profit * ((profit_margin - 1 / 10) / (4 / 10 - 1 / 10))
       - w_stock * (if current_stock < 50 then 1 else 0)"

subsection \<open>A small catalog\<close>

text \<open>One retailer and three products, with the margins 0.1, 0.4, 0.25 and the stocks
  10, 200, 60, and a scorer that gives them the scores 0.9, 0.8, 0.7.\<close>

definition example_state :: state where
  "example_state = module_globals
     \<lparr>retailer_map := [(''R001'', 0)],
      product_map := [(''P0001'', 0), (''P0002'', 1), (''P0003'', 2)],
      product_vectors_data := [(''P0001'', [0]), (''P0002'', [0]), (''P0003'', [0])],
      product_catalog :=
        [(''P0001'', \<lparr>Category = 0, ProfitMargin = 0.1, CurrentStock = 10\<rparr>),
         (''P0002'', \<lparr>Category = 1, ProfitMargin = 0.4, CurrentStock = 200\<rparr>),
         (''P0003'', \<lparr>Category = 2, ProfitMargin = 0.25, CurrentStock = 60\<rparr>)],
      retailer_profiles := [(''R001'', \<lparr>StoreType = 0, LocationTier = 0\<rparr>)]\<rparr>"

definition example_predict :: "model_inputs \<Rightarrow> real list" where
  "example_predict inputs = map (\<lambda>i. 0.9 - real_of_int i / 10) (p_id_input inputs)"

definition example_candidates :: "(real \<times> string) list" where
  "example_candidates = [(0.9, ''P0001''), (0.8, ''P0002''), (0.7, ''P0003'')]"

text \<open>The same catalog and candidates as the code holds them: the margins are the
  doubles 0.1, 0.4 and 0.25 and the scores the \<^verbatim>\<open>float32\<close> numbers nearest to 0.9,
  0.8 and 0.7.\<close>

definition float_example_catalog :: "(string \<times> rat \<times> int) list" where
  "float_example_catalog =
     [(''P0001'', (f64_round (1 / 10), 10)),
      (''P0002'', (f64_round (4 / 10), 200)),
      (''P0003'', (1 / 4, 60))]"

definition float_example_candidates :: "(rat \<times> string) list" where
  "float_example_candidates =
     [(f32_round (9 / 10), ''P0001''), (f32_round (8 / 10), ''P0002''),
      (f32_round (7 / 10), ''P0003'')]"

text \<open>Two products that differ in stock only, both above the threshold of 50, offered
  with the same score.\<close>

definition tie_state :: state where
  "tie_state = example_state
     \<lparr>product_catalog :=
        [(''P0002'', \<lparr>Category = 1, ProfitMargin = 0.4, CurrentStock = 200\<rparr>),
         (''P0004'', \<lparr>Category = 1, ProfitMargin = 0.4, CurrentStock = 450\<rparr>)]\<rparr>"

definition tie_candidates :: "(real \<times> string) list" where
  "tie_candidates = [(0.8, ''P0004''), (0.8, ''P0002'')]"

text \<open>A retailer that has an index in \<^verbatim>\<open>retailer_map\<close> and no row in
  \<^verbatim>\<open>retailer_profiles\<close>. The two artifacts are written apart by \<^verbatim>\<open>data_prep.py\<close>:
  the map from all generated ids (line 99), the profiles from the retailers that occur
  in the sampled interactions (line 91).\<close>

definition orphan_state :: state where
  "orphan_state = example_state\<lparr>retailer_map := [(''R001'', 0), (''R002'', 1)]\<rparr>"

text \<open>A second scorer: it gives the same scores as \<open>example_predict\<close> to the batch of
  the small catalog and none to any other batch.\<close>

definition table_predict :: "model_inputs \<Rightarrow> real list" where
  "table_predict inputs = (if p_id_input inputs = [0, 1, 2] then [0.9, 0.8, 0.7] else [])"

section \<open>Lookups and the re-ranking loop\<close>

lemma dict_get_Some: "map_of d k = Some v \<Longrightarrow> dict_get d k = Inr v"
  by (simp add: dict_get_def)

lemma dict_get_None: "map_of d k = None \<Longrightarrow> dict_get d k = Inl (KeyError k)"
  by (simp add: dict_get_def)

lemma dict_get_Inr: "dict_get d k = Inr v \<longleftrightarrow> map_of d k = Some v"
  by (simp add: dict_get_def split: option.splits)

lemma in_keys_map_of: "k \<in> fst ` set d \<Longrightarrow> \<exists>v. map_of d k = Some v"
  by (metis map_of_eq_None_iff not_Some_eq)

lemma dict_get_all_ok:
  "set ks \<subseteq> fst ` set d \<Longrightarrow> \<exists>vs. dict_get_all d ks = Inr vs \<and> length vs = length ks"
proof (induction ks)
  case Nil
  then show ?case by simp
next
  case (Cons k ks)
  then obtain vs where vs: "dict_get_all d ks = Inr vs" "length vs = length ks" by auto
  from Cons.prems have "k \<in> fst ` set d" by simp
  then obtain v where "map_of d k = Some v" using in_keys_map_of by fastforce
  then show ?case using vs by (simp add: dict_get_Some)
qed

lemma index_all_ok:
  "\<forall>i \<in> set idx. i < length xs \<Longrightarrow> index_all xs idx = Inr (map (\<lambda>i. xs ! i) idx)"
  by (induction idx) simp_all

text \<open>The loop succeeds when every candidate is in the catalog.\<close>

lemma rerank_loop_ok:
  "\<forall>c \<in> set cs. snd c \<in> fst ` set (product_catalog s) \<Longrightarrow> \<exists>fs. rerank_loop s cs acc = Inr fs"
proof (induction cs arbitrary: acc)
  case Nil
  then show ?case by simp
next
  case (Cons c cs)
  obtain score pid where c: "c = (score, pid)" by (cases c)
  with Cons.prems have "pid \<in> fst ` set (product_catalog s)" by simp
  then obtain p where "map_of (product_catalog s) pid = Some p" using in_keys_map_of by fastforce
  then show ?case using Cons c by (simp add: dict_get_Some Let_def)
qed

text \<open>What the loop appends: one entry per candidate, in the candidates' order.\<close>

lemma rerank_loop_entries:
  "rerank_loop s cs acc = Inr fs \<Longrightarrow>
     \<exists>ys. fs = acc @ ys \<and> length ys = length cs \<and>
       (\<forall>i < length cs. \<exists>p. map_of (product_catalog s) (snd (cs ! i)) = Some p \<and>
          ys ! i = (snd (cs ! i),
                    W_MODEL s * fst (cs ! i) + W_PROFIT s * ((ProfitMargin p - 0.1) / (0.4 - 0.1))
                      - W_STOCK s * (if CurrentStock p < 50 then 1 else 0),
                    fst (cs ! i)))"
proof (induction s cs acc arbitrary: fs rule: rerank_loop.induct)
  case (1 s final_scores)
  then show ?case by simp
next
  case (2 s score pid rest final_scores)
  from "2.prems" obtain p where p: "map_of (product_catalog s) pid = Some p"
    by (auto simp: dict_get_def split: option.splits)
  let ?e = "(pid, W_MODEL s * score + W_PROFIT s * normalized_margin (ProfitMargin p)
                 - W_STOCK s * stock_penalty (CurrentStock p), score)"
  from "2.prems" p have run: "rerank_loop s rest (final_scores @ [?e]) = Inr fs"
    by (simp add: dict_get_def Let_def)
  from "2.IH"[of p, OF _ refl refl refl refl refl refl run] p
  obtain ys where ys: "fs = (final_scores @ [?e]) @ ys" "length ys = length rest"
    and nth: "\<forall>i < length rest. \<exists>p. map_of (product_catalog s) (snd (rest ! i)) = Some p \<and>
          ys ! i = (snd (rest ! i),
                    W_MODEL s * fst (rest ! i) + W_PROFIT s * ((ProfitMargin p - 0.1) / (0.4 - 0.1))
                      - W_STOCK s * (if CurrentStock p < 50 then 1 else 0),
                    fst (rest ! i))"
    by (auto simp: dict_get_def)
  show ?case
  proof (intro exI[of _ "?e # ys"] conjI allI impI)
    show "fs = final_scores @ ?e # ys" using ys by simp
    show "length (?e # ys) = length ((score, pid) # rest)" using ys by simp
  next
    fix i assume "i < length ((score, pid) # rest)"
    then show "\<exists>p. map_of (product_catalog s) (snd (((score, pid) # rest) ! i)) = Some p \<and>
          (?e # ys) ! i = (snd (((score, pid) # rest) ! i),
                    W_MODEL s * fst (((score, pid) # rest) ! i)
                      + W_PROFIT s * ((ProfitMargin p - 0.1) / (0.4 - 0.1))
                      - W_STOCK s * (if CurrentStock p < 50 then 1 else 0),
                    fst (((score, pid) # rest) ! i))"
      using p nth by (cases i) (auto simp: normalized_margin_def stock_penalty_def)
  qed
qed

lemma rerank_loop_example:
  "rerank_loop example_state example_candidates [] =
     Inr [(''P0001'', 0.25, 0.9), (''P0002'', 0.7, 0.8), (''P0003'', 0.5, 0.7)]"
  by (simp add: example_candidates_def example_state_def module_globals_def dict_get_def
      normalized_margin_def stock_penalty_def normalized_stock_def Let_def)

section \<open>The business score\<close>

text \<open>The loop in the arithmetic of the code: one entry per candidate, in the
  candidates' order, each operation of lines 160 and 167 rounded.\<close>

lemma float_rerank_loop_entries:
  "float_rerank_loop rnd wm wp ws catalog cs acc = Inr fs \<Longrightarrow>
     \<exists>ys. fs = acc @ ys \<and> length ys = length cs \<and>
       (\<forall>i < length cs. \<exists>m st. map_of catalog (snd (cs ! i)) = Some (m, st) \<and>
          ys ! i = (snd (cs ! i),
                    rnd (rnd (rnd (rnd wm * fst (cs ! i))
                                + rnd (f64_round (wp * f64_normalized_margin m)))
                           - rnd (f64_round (ws * (if st < 50 then 1 else 0)))),
                    fst (cs ! i)))"
proof (induction cs arbitrary: acc fs)
  case Nil
  then show ?case by simp
next
  case (Cons c cs)
  obtain score pid where c: "c = (score, pid)" by (cases c)
  from Cons.prems c obtain m st where p: "map_of catalog pid = Some (m, st)"
    by (auto simp: dict_get_def split: option.splits)
  let ?e = "(pid,
             rnd (rnd (rnd (rnd wm * score) + rnd (f64_round (wp * f64_normalized_margin m)))
                    - rnd (f64_round (ws * (if st < 50 then 1 else 0)))),
             score)"
  from Cons.prems c p have run: "float_rerank_loop rnd wm wp ws catalog cs (acc @ [?e]) = Inr fs"
    by (simp add: dict_get_def Let_def np_sub_def np_add_def np_mul_def f64_mul_def)
  from Cons.IH[OF run]
  obtain ys where ys: "fs = (acc @ [?e]) @ ys" "length ys = length cs"
    and nth: "\<forall>i < length cs. \<exists>m st. map_of catalog (snd (cs ! i)) = Some (m, st) \<and>
          ys ! i = (snd (cs ! i),
                    rnd (rnd (rnd (rnd wm * fst (cs ! i))
                                + rnd (f64_round (wp * f64_normalized_margin m)))
                           - rnd (f64_round (ws * (if st < 50 then 1 else 0)))),
                    fst (cs ! i))"
    by blast
  show ?case
  proof (intro exI[of _ "?e # ys"] conjI allI impI)
    show "fs = acc @ ?e # ys" using ys by simp
    show "length (?e # ys) = length (c # cs)" using ys by simp
  next
    fix i assume "i < length (c # cs)"
    then show "\<exists>m st. map_of catalog (snd ((c # cs) ! i)) = Some (m, st) \<and>
          (?e # ys) ! i = (snd ((c # cs) ! i),
                    rnd (rnd (rnd (rnd wm * fst ((c # cs) ! i))
                                + rnd (f64_round (wp * f64_normalized_margin m)))
                           - rnd (f64_round (ws * (if st < 50 then 1 else 0)))),
                    fst ((c # cs) ! i))"
      using p nth c by (cases i) auto
  qed
qed

lemma float_rerank_loop_example_f32:
  "float_rerank_loop f32_round (1 / 2) (f64_round (3 / 10)) (f64_round (2 / 10))
       float_example_catalog float_example_candidates [] =
     Inr [(''P0001'', 16777215 / 67108864, 7549747 / 8388608),
          (''P0002'', 2936013 / 4194304, 13421773 / 16777216),
          (''P0003'', 1 / 2, 11744051 / 16777216)]"
  by code_simp

lemma float_rerank_loop_example_f64:
  "float_rerank_loop f64_round (1 / 2) (f64_round (3 / 10)) (f64_round (2 / 10))
       float_example_catalog float_example_candidates [] =
     Inr [(''P0001'', 4503599412622131 / 18014398509481984, 7549747 / 8388608),
          (''P0002'', 3152519766002893 / 4503599627370496, 13421773 / 16777216),
          (''P0003'', 9007199147366809 / 18014398509481984, 11744051 / 16777216)]"
  by code_simp

lemma business_score_spec_example:
  "business_score_spec (1 / 2) (f64_round (3 / 10)) (f64_round (2 / 10))
       (13421773 / 16777216) (f64_round (4 / 10)) 200
     = 170372242121385017800871696872243 / 243388915243820045087367015432192"
  by code_simp

text \<open>
  Claim C1, as the code has it. The claim reads: the business score computed for a
  candidate equals \<open>W_MODEL * score + W_PROFIT * normalizedMargin - W_STOCK * penalty\<close>.
  For the candidate with the \<^verbatim>\<open>float32\<close> score nearest to 0.8, the margin 0.4, the
  stock 200 and the weights 0.5, 0.3, 0.2 the loop stores 0.7000000476837158
  (\<open>2936013/4194304\<close>) with \<^verbatim>\<open>float32\<close> results and 0.7000000059604645
  (\<open>3152519766002893/4503599627370496\<close>) with \<^verbatim>\<open>float64\<close> results; the value of the
  formula is neither, be it taken for the doubles the code holds or for the decimal
  constants 0.3 and 0.4.
\<close>

theorem float_business_score_counterexample:
  "float_rerank_loop f32_round (1 / 2) (f64_round (3 / 10)) (f64_round (2 / 10))
       float_example_catalog float_example_candidates [] =
     Inr [(''P0001'', 16777215 / 67108864, 7549747 / 8388608),
          (''P0002'', 2936013 / 4194304, 13421773 / 16777216),
          (''P0003'', 1 / 2, 11744051 / 16777216)] \<and>
   float_rerank_loop f64_round (1 / 2) (f64_round (3 / 10)) (f64_round (2 / 10))
       float_example_catalog float_example_candidates [] =
     Inr [(''P0001'', 4503599412622131 / 18014398509481984, 7549747 / 8388608),
          (''P0002'', 3152519766002893 / 4503599627370496, 13421773 / 16777216),
          (''P0003'', 9007199147366809 / 18014398509481984, 11744051 / 16777216)] \<and>
   map_of float_example_catalog ''P0002'' = Some (f64_round (4 / 10), 200) \<and>
   business_score_spec (1 / 2) (f64_round (3 / 10)) (f64_round (2 / 10))
       (13421773 / 16777216) (f64_round (4 / 10)) 200 \<noteq> 2936013 / 4194304 \<and>
   business_score_spec (1 / 2) (f64_round (3 / 10)) (f64_round (2 / 10))
       (13421773 / 16777216) (f64_round (4 / 10)) 200 \<noteq> 3152519766002893 / 4503599627370496 \<and>
   business_score_spec (1 / 2) (3 / 10) (2 / 10) (13421773 / 16777216) (4 / 10) 200
     \<noteq> 2936013 / 4194304 \<and>
   business_score_spec (1 / 2) (3 / 10) (2 / 10) (13421773 / 16777216) (4 / 10) 200
     \<noteq> 3152519766002893 / 4503599627370496"
proof -
  have dec: "business_score_spec (1 / 2) (3 / 10) (2 / 10) (13421773 / 16777216) (4 / 10) 200
               = 117440513 / 167772160"
    by (simp add: business_score_spec_def)
  have d32: "business_score_spec (1 / 2) (3 / 10) (2 / 10) (13421773 / 16777216) (4 / 10) 200
               \<noteq> 2936013 / 4194304"
    unfolding dec by simp
  have d64: "business_score_spec (1 / 2) (3 / 10) (2 / 10) (13421773 / 16777216) (4 / 10) 200
               \<noteq> 3152519766002893 / 4503599627370496"
    unfolding dec by simp
  have cat: "map_of float_example_catalog ''P0002'' = Some (f64_round (4 / 10), 200)"
    by (simp add: float_example_catalog_def)
  have n32: "business_score_spec (1 / 2) (f64_round (3 / 10)) (f64_round (2 / 10))
       (13421773 / 16777216) (f64_round (4 / 10)) 200 \<noteq> 2936013 / 4194304"
    unfolding business_score_spec_example by simp
  have n64: "business_score_spec (1 / 2) (f64_round (3 / 10)) (f64_round (2 / 10))
       (13421773 / 16777216) (f64_round (4 / 10)) 200 \<noteq> 3152519766002893 / 4503599627370496"
    unfolding business_score_spec_example by simp
  show ?thesis
    by (intro conjI) (fact float_rerank_loop_example_f32, fact float_rerank_loop_example_f64,
        fact cat, fact n32, fact n64, fact d32, fact d64)
qed

text \<open>
  Claim C1, amended. For every shortlisted candidate \<open>(score, pid)\<close> the loop of the
  re-ranker stores, at the candidate's position, the product, the business score and
  the model's score. In exact arithmetic the business score is
  \<open>W_MODEL * score + W_PROFIT * ((ProfitMargin - 0.1) / (0.4 - 0.1)) - W_STOCK * penalty\<close>.
  In the arithmetic of the code it is this expression with every operation rounded to
  nearest: the margin normalisation and the products with \<open>W_PROFIT\<close> and \<open>W_STOCK\<close>
  to double precision, the product with \<open>W_MODEL\<close>, the sum and the difference to the
  result type \<open>rnd\<close> of NumPy (\<^verbatim>\<open>float32\<close> from NumPy 2 on, \<^verbatim>\<open>float64\<close> before).
  In both the penalty is 1 for a stock below 50 and 0 otherwise: a stock of 49 is
  penalised and a stock of 50 is not.
\<close>

theorem business_score_stored:
  "(\<forall>s candidates final_scores i score pid.
      rerank_loop s candidates [] = Inr final_scores \<longrightarrow> i < length candidates \<longrightarrow>
      candidates ! i = (score, pid) \<longrightarrow>
      length final_scores = length candidates \<and>
      (\<exists>p_data. map_of (product_catalog s) pid = Some p_data \<and>
         final_scores ! i =
           (pid,
            W_MODEL s * score + W_PROFIT s * ((ProfitMargin p_data - 0.1) / (0.4 - 0.1))
              - W_STOCK s * (if CurrentStock p_data < 50 then 1.0 else 0.0),
            score))) \<and>
   (\<forall>rnd w_model w_profit w_stock catalog candidates final_scores i score pid.
      float_rerank_loop rnd w_model w_profit w_stock catalog candidates [] = Inr final_scores \<longrightarrow>
      i < length candidates \<longrightarrow> candidates ! i = (score, pid) \<longrightarrow>
      length final_scores = length candidates \<and>
      (\<exists>profit_margin current_stock.
         map_of catalog pid = Some (profit_margin, current_stock) \<and>
         final_scores ! i =
           (pid,
            rnd (rnd (rnd (rnd w_model * score)
                        + rnd (f64_round (w_profit * f64_normalized_margin profit_margin)))
                   - rnd (f64_round (w_stock * (if current_stock < 50 then 1 else 0)))),
            score))) \<and>
   stock_penalty 49 = 1.0 \<and> stock_penalty 50 = 0.0"
proof (intro conjI allI impI)
  fix s candidates final_scores i score pid
  assume run: "rerank_loop s candidates [] = Inr final_scores"
    and i: "i < length candidates" and c: "candidates ! i = (score, pid)"
  from rerank_loop_entries[OF run] have len: "length final_scores = length candidates"
    and nth: "\<forall>i < length candidates.
       \<exists>p. map_of (product_catalog s) (snd (candidates ! i)) = Some p \<and>
          final_scores ! i = (snd (candidates ! i),
                    W_MODEL s * fst (candidates ! i)
                      + W_PROFIT s * ((ProfitMargin p - 0.1) / (0.4 - 0.1))
                      - W_STOCK s * (if CurrentStock p < 50 then 1 else 0),
                    fst (candidates ! i))"
    by auto
  show "length final_scores = length candidates" by (rule len)
  from nth i c show "\<exists>p_data. map_of (product_catalog s) pid = Some p_data \<and>
         final_scores ! i =
           (pid,
            W_MODEL s * score + W_PROFIT s * ((ProfitMargin p_data - 0.1) / (0.4 - 0.1))
              - W_STOCK s * (if CurrentStock p_data < 50 then 1.0 else 0.0),
            score)"
    by fastforce
next
  fix rnd w_model w_profit w_stock catalog candidates final_scores i score pid
  assume run: "float_rerank_loop rnd w_model w_profit w_stock catalog candidates []
                 = Inr final_scores"
    and i: "i < length candidates" and c: "candidates ! i = (score, pid)"
  from float_rerank_loop_entries[OF run] have len: "length final_scores = length candidates"
    and nth: "\<forall>i < length candidates.
       \<exists>m st. map_of catalog (snd (candidates ! i)) = Some (m, st) \<and>
          final_scores ! i = (snd (candidates ! i),
                    rnd (rnd (rnd (rnd w_model * fst (candidates ! i))
                                + rnd (f64_round (w_profit * f64_normalized_margin m)))
                           - rnd (f64_round (w_stock * (if st < 50 then 1 else 0)))),
                    fst (candidates ! i))"
    by auto
  show "length final_scores = length candidates" by (rule len)
  from nth i c show "\<exists>profit_margin current_stock.
         map_of catalog pid = Some (profit_margin, current_stock) \<and>
         final_scores ! i =
           (pid,
            rnd (rnd (rnd (rnd w_model * score)
                        + rnd (f64_round (w_profit * f64_normalized_margin profit_margin)))
                   - rnd (f64_round (w_stock * (if current_stock < 50 then 1 else 0)))),
            score)"
    by fastforce
next
  show "stock_penalty 49 = 1.0" by (simp add: stock_penalty_def)
  show "stock_penalty 50 = 0.0" by (simp add: stock_penalty_def)
qed

theorem business_score_stored_witness:
  "rerank_loop example_state example_candidates [] =
     Inr [(''P0001'', 0.25, 0.9), (''P0002'', 0.7, 0.8), (''P0003'', 0.5, 0.7)] \<and>
   (0::nat) < length example_candidates \<and> example_candidates ! 0 = (0.9, ''P0001'') \<and>
   (\<exists>p_data. map_of (product_catalog example_state) ''P0001'' = Some p_data \<and>
      [(''P0001'', 0.25, 0.9), (''P0002'', 0.7, 0.8), (''P0003'', 0.5, 0.7)] ! 0 =
        (''P0001'',
         W_MODEL example_state * 0.9
           + W_PROFIT example_state * ((ProfitMargin p_data - 0.1) / (0.4 - 0.1))
           - W_STOCK example_state * (if CurrentStock p_data < 50 then 1.0 else 0.0),
         0.9 :: real)) \<and>
   float_rerank_loop f32_round (1 / 2) (f64_round (3 / 10)) (f64_round (2 / 10))
       float_example_catalog float_example_candidates [] =
     Inr [(''P0001'', 16777215 / 67108864, 7549747 / 8388608),
          (''P0002'', 2936013 / 4194304, 13421773 / 16777216),
          (''P0003'', 1 / 2, 11744051 / 16777216)] \<and>
   (1::nat) < length float_example_candidates \<and>
   float_example_candidates ! 1 = (13421773 / 16777216, ''P0002'') \<and>
   (\<exists>profit_margin current_stock.
      map_of float_example_catalog ''P0002'' = Some (profit_margin, current_stock) \<and>
      [(''P0001'', 16777215 / 67108864, 7549747 / 8388608),
       (''P0002'', 2936013 / 4194304, 13421773 / 16777216),
       (''P0003'', 1 / 2, 11744051 / 16777216)] ! 1 =
        (''P0002'',
         f32_round (f32_round (f32_round (f32_round (1 / 2) * (13421773 / 16777216))
                      + f32_round (f64_round (f64_round (3 / 10)
                                     * f64_normalized_margin profit_margin)))
                 - f32_round (f64_round (f64_round (2 / 10)
                                * (if current_stock < 50 then 1 else 0)))),
         13421773 / 16777216 :: rat))"
proof -
  have a: "(0::nat) < length example_candidates" by (simp add: example_candidates_def)
  have b: "example_candidates ! 0 = (0.9, ''P0001'')" by (simp add: example_candidates_def)
  have fa: "(1::nat) < length float_example_candidates"
    by (simp add: float_example_candidates_def)
  have fb: "float_example_candidates ! 1 = (13421773 / 16777216, ''P0002'')" by code_simp
  note exact = business_score_stored[THEN conjunct1, rule_format, OF rerank_loop_example a b]
  note float = business_score_stored[THEN conjunct2, THEN conjunct1, rule_format,
      OF float_rerank_loop_example_f32 fa fb]
  show ?thesis
    by (intro conjI) (fact rerank_loop_example, fact a, fact b, fact exact[THEN conjunct2],
        fact float_rerank_loop_example_f32, fact fa, fact fb, fact float[THEN conjunct2])
qed

text \<open>
  Claim C6. The clamped stock level \<open>normalized_stock\<close> is computed and not used: two
  candidates with the same model score and the same profit margin whose stocks are on
  the same side of 50 get the same business score, however far apart the stocks are.
\<close>

theorem business_score_same_side_of_threshold:
  assumes "rerank_loop s candidates [] = Inr final_scores"
    and "i < length candidates" and "j < length candidates"
    and "candidates ! i = (score, pid_i)" and "candidates ! j = (score, pid_j)"
    and "map_of (product_catalog s) pid_i = Some p_i"
    and "map_of (product_catalog s) pid_j = Some p_j"
    and "ProfitMargin p_i = ProfitMargin p_j"
    and "CurrentStock p_i < 50 \<longleftrightarrow> CurrentStock p_j < 50"
  shows "fst (snd (final_scores ! i)) = fst (snd (final_scores ! j))"
proof -
  from rerank_loop_entries[OF assms(1)] have nth: "\<forall>i < length candidates.
       \<exists>p. map_of (product_catalog s) (snd (candidates ! i)) = Some p \<and>
          final_scores ! i = (snd (candidates ! i),
                    W_MODEL s * fst (candidates ! i)
                      + W_PROFIT s * ((ProfitMargin p - 0.1) / (0.4 - 0.1))
                      - W_STOCK s * (if CurrentStock p < 50 then 1 else 0),
                    fst (candidates ! i))"
    by auto
  from nth assms(2,4,6) have i: "final_scores ! i = (pid_i,
       W_MODEL s * score + W_PROFIT s * ((ProfitMargin p_i - 0.1) / (0.4 - 0.1))
         - W_STOCK s * (if CurrentStock p_i < 50 then 1 else 0), score)"
    by fastforce
  from nth assms(3,5,7) have j: "final_scores ! j = (pid_j,
       W_MODEL s * score + W_PROFIT s * ((ProfitMargin p_j - 0.1) / (0.4 - 0.1))
         - W_STOCK s * (if CurrentStock p_j < 50 then 1 else 0), score)"
    by fastforce
  show ?thesis using i j assms(8,9) by simp
qed

lemma rerank_loop_tie_example:
  "rerank_loop tie_state tie_candidates [] = Inr [(''P0004'', 0.7, 0.8), (''P0002'', 0.7, 0.8)]"
  by (simp add: tie_candidates_def tie_state_def example_state_def module_globals_def
      dict_get_def normalized_margin_def stock_penalty_def normalized_stock_def Let_def)

theorem business_score_same_side_of_threshold_witness:
  "rerank_loop tie_state tie_candidates [] = Inr [(''P0004'', 0.7, 0.8), (''P0002'', 0.7, 0.8)] \<and>
   tie_candidates ! 0 = (0.8, ''P0004'') \<and> tie_candidates ! 1 = (0.8, ''P0002'') \<and>
   map_of (product_catalog tie_state) ''P0004''
     = Some \<lparr>Category = 1, ProfitMargin = 0.4, CurrentStock = 450\<rparr> \<and>
   map_of (product_catalog tie_state) ''P0002''
     = Some \<lparr>Category = 1, ProfitMargin = 0.4, CurrentStock = 200\<rparr> \<and>
   normalized_stock 450 = 0.9 \<and> normalized_stock 200 = 0.4 \<and>
   fst (snd ([(''P0004'', 0.7, 0.8 :: real), (''P0002'', 0.7 :: real, 0.8)] ! 0))
     = fst (snd ([(''P0004'', 0.7, 0.8 :: real), (''P0002'', 0.7 :: real, 0.8)] ! 1))"
proof -
  have i: "(0::nat) < length tie_candidates" and j: "(1::nat) < length tie_candidates"
    by (simp_all add: tie_candidates_def)
  have ci: "tie_candidates ! 0 = (0.8, ''P0004'')" and cj: "tie_candidates ! 1 = (0.8, ''P0002'')"
    by (simp_all add: tie_candidates_def)
  have pi: "map_of (product_catalog tie_state) ''P0004''
              = Some \<lparr>Category = 1, ProfitMargin = 0.4, CurrentStock = 450\<rparr>"
    and pj: "map_of (product_catalog tie_state) ''P0002''
              = Some \<lparr>Category = 1, ProfitMargin = 0.4, CurrentStock = 200\<rparr>"
    by (simp_all add: tie_state_def)
  have ns: "normalized_stock 450 = 0.9" "normalized_stock 200 = 0.4"
    by (simp_all add: normalized_stock_def)
  from business_score_same_side_of_threshold[OF rerank_loop_tie_example i j ci cj pi pj]
  have "fst (snd ([(''P0004'', 0.7, 0.8 :: real), (''P0002'', 0.7 :: real, 0.8)] ! 0))
     = fst (snd ([(''P0004'', 0.7, 0.8 :: real), (''P0002'', 0.7 :: real, 0.8)] ! 1))"
    by simp
  with rerank_loop_tie_example ci cj pi pj ns show ?thesis by blast
qed

section \<open>The order of the re-ranked list\<close>




lemma length_sort_reverse: "length (sort_reverse key xs) = length xs"
  by (simp add: sort_reverse_def)

lemma set_sort_reverse: "set (sort_reverse key xs) = set xs"
  by (simp add: sort_reverse_def)


lemma example_run:
  "fst (get_hybrid_recommendations example_predict stable_argsort
          \<lparr>retailer_id = ''R001''\<rparr> example_state) =
   Inr [\<lparr>product_id = ''P0002'', predicted_score = 0.8, final_rank = 1\<rparr>,
        \<lparr>product_id = ''P0003'', predicted_score = 0.7, final_rank = 2\<rparr>,
        \<lparr>product_id = ''P0001'', predicted_score = 0.9, final_rank = 3\<rparr>]"
  by (simp add: get_hybrid_recommendations_def build_inputs_def select_candidates_def
      top_indices_def stable_argsort_def example_predict_def final_output_def rerank_def example_state_def
      module_globals_def dict_get_def normalized_margin_def stock_penalty_def
      normalized_stock_def Let_def sort_reverse_def)



section \<open>Candidate selection\<close>

lemma argsort_spec_length: "argsort_spec f \<Longrightarrow> length (f ps) = length ps"
  unfolding argsort_spec_def by (metis mset_eq_length length_upt diff_zero)

lemma argsort_spec_set: "argsort_spec f \<Longrightarrow> set (f ps) = {..<length ps}"
  unfolding argsort_spec_def by (metis mset_eq_setD set_upt atLeast_upt)

lemma argsort_spec_distinct: "argsort_spec f \<Longrightarrow> distinct (f ps)"
  unfolding argsort_spec_def by (metis mset_eq_imp_distinct_iff distinct_upt)

lemma argsort_spec_sorted: "argsort_spec f \<Longrightarrow> sorted (map (\<lambda>i. ps ! i) (f ps))"
  unfolding argsort_spec_def by blast

lemma stable_argsort_spec: "argsort_spec stable_argsort"
  unfolding argsort_spec_def stable_argsort_def by simp

lemma top_indices_length:
  "argsort_spec f \<Longrightarrow> length (top_indices f k ps) = min k (length ps)"
  by (simp add: top_indices_def argsort_spec_length min.commute)

lemma top_indices_distinct: "argsort_spec f \<Longrightarrow> distinct (top_indices f k ps)"
  by (simp add: top_indices_def argsort_spec_distinct)

lemma top_indices_bound:
  assumes "argsort_spec f" and "i \<in> set (top_indices f k ps)"
  shows "i < length ps"
proof -
  from assms(2) have "i \<in> set (f ps)" unfolding top_indices_def by (auto dest: in_set_takeD)
  then show ?thesis using argsort_spec_set[OF assms(1)] by auto
qed

lemma rev_argsort_descending:
  assumes "argsort_spec f"
  shows "sorted_wrt (\<lambda>a b. b \<le> a) (map (\<lambda>i. ps ! i) (rev (f ps)))"
proof -
  have "sorted_wrt (\<lambda>a b. a \<le> b) (map (\<lambda>i. ps ! i) (f ps))"
    using argsort_spec_sorted[OF assms] by simp
  then show ?thesis by (simp add: sorted_wrt_rev flip: rev_map)
qed

lemma top_indices_descending:
  assumes "argsort_spec f"
  shows "sorted_wrt (\<lambda>a b. b \<le> a) (map (\<lambda>i. ps ! i) (top_indices f k ps))"
proof -
  have "map (\<lambda>i. ps ! i) (top_indices f k ps) = take k (map (\<lambda>i. ps ! i) (rev (f ps)))"
    by (simp add: top_indices_def take_map)
  then show ?thesis using rev_argsort_descending[OF assms] by simp
qed

text \<open>An index that was not selected has a score that is at most every selected one.\<close>

lemma top_indices_dominate:
  assumes spec: "argsort_spec f"
    and i: "i \<in> set (top_indices f k ps)"
    and j: "j < length ps" "j \<notin> set (top_indices f k ps)"
  shows "ps ! j \<le> ps ! i"
proof -
  let ?r = "rev (f ps)"
  have split: "?r = take k ?r @ drop k ?r" by simp
  from j(1) have "j \<in> set ?r" using argsort_spec_set[OF spec] by simp
  with j(2) have jd: "j \<in> set (drop k ?r)"
    unfolding top_indices_def by (metis split Un_iff set_append)
  have "sorted_wrt (\<lambda>a b. b \<le> a) (map (\<lambda>i. ps ! i) (take k ?r) @ map (\<lambda>i. ps ! i) (drop k ?r))"
    using rev_argsort_descending[OF spec, of ps] by (metis split map_append)
  then have "\<forall>a \<in> set (map (\<lambda>i. ps ! i) (take k ?r)).
               \<forall>b \<in> set (map (\<lambda>i. ps ! i) (drop k ?r)). b \<le> a"
    by (simp add: sorted_wrt_append)
  then show ?thesis using i jd unfolding top_indices_def by auto
qed

lemma top_indices_all:
  assumes "argsort_spec f" and "length ps \<le> k"
  shows "mset (top_indices f k ps) = mset [0..<length ps]"
proof -
  have "top_indices f k ps = rev (f ps)"
    using assms(2) by (simp add: top_indices_def argsort_spec_length[OF assms(1)])
  then show ?thesis using assms(1) by (simp add: argsort_spec_def)
qed

lemma mset_map_nth_perm:
  assumes "mset idx = mset [0..<length xs]"
  shows "mset (map (\<lambda>i. xs ! i) idx) = mset xs"
proof -
  have "mset (map (\<lambda>i. xs ! i) idx) = image_mset (\<lambda>i. xs ! i) (mset idx)" by simp
  also have "\<dots> = mset (map (\<lambda>i. xs ! i) [0..<length xs])" using assms by simp
  also have "\<dots> = mset xs" by (simp add: map_nth)
  finally show ?thesis .
qed

lemma select_candidates_ok:
  assumes "argsort_spec f" and "length ids = length ps"
  shows "select_candidates f k ps ids =
           Inr (map (\<lambda>i. ps ! i) (top_indices f k ps), map (\<lambda>i. ids ! i) (top_indices f k ps))"
proof -
  have a: "\<forall>i \<in> set (top_indices f k ps). i < length ps"
    using top_indices_bound[OF assms(1)] by blast
  then have b: "\<forall>i \<in> set (top_indices f k ps). i < length ids" using assms(2) by simp
  show ?thesis
    by (simp add: select_candidates_def Let_def index_all_ok[OF a] index_all_ok[OF b])
qed

text \<open>
  Claim C4. Given one score per product, candidate selection returns the scores and the
  products at the indices \<open>top_indices\<close>: \<open>min k n\<close> distinct indices of the \<open>n\<close>
  scored products, in descending order of score, each with a score at least that of
  every product left out; when \<open>k\<close> is at least \<open>n\<close> the indices are all indices, so
  the result is all products in descending order of score.
\<close>

theorem select_candidates_top_k:
  assumes "argsort_spec argsort" and "length all_product_ids = length predictions"
  shows "select_candidates argsort k predictions all_product_ids =
           Inr (map (\<lambda>i. predictions ! i) (top_indices argsort k predictions),
                map (\<lambda>i. all_product_ids ! i) (top_indices argsort k predictions)) \<and>
         length (top_indices argsort k predictions) = min k (length predictions) \<and>
         distinct (top_indices argsort k predictions) \<and>
         (\<forall>i \<in> set (top_indices argsort k predictions). i < length predictions) \<and>
         sorted_wrt (\<lambda>a b. b \<le> a)
           (map (\<lambda>i. predictions ! i) (top_indices argsort k predictions)) \<and>
         (\<forall>i \<in> set (top_indices argsort k predictions). \<forall>j < length predictions.
             j \<notin> set (top_indices argsort k predictions) \<longrightarrow> predictions ! j \<le> predictions ! i) \<and>
         (length predictions \<le> k \<longrightarrow>
             mset (top_indices argsort k predictions) = mset [0..<length predictions] \<and>
             mset (map (\<lambda>i. all_product_ids ! i) (top_indices argsort k predictions))
               = mset all_product_ids)"
proof (intro conjI)
  show "select_candidates argsort k predictions all_product_ids =
           Inr (map (\<lambda>i. predictions ! i) (top_indices argsort k predictions),
                map (\<lambda>i. all_product_ids ! i) (top_indices argsort k predictions))"
    by (rule select_candidates_ok[OF assms])
  show "length (top_indices argsort k predictions) = min k (length predictions)"
    by (rule top_indices_length[OF assms(1)])
  show "distinct (top_indices argsort k predictions)"
    by (rule top_indices_distinct[OF assms(1)])
  show "\<forall>i \<in> set (top_indices argsort k predictions). i < length predictions"
    using top_indices_bound[OF assms(1)] by blast
  show "sorted_wrt (\<lambda>a b. b \<le> a)
           (map (\<lambda>i. predictions ! i) (top_indices argsort k predictions))"
    by (rule top_indices_descending[OF assms(1)])
  show "\<forall>i \<in> set (top_indices argsort k predictions). \<forall>j < length predictions.
             j \<notin> set (top_indices argsort k predictions) \<longrightarrow> predictions ! j \<le> predictions ! i"
    using top_indices_dominate[OF assms(1)] by blast
  show "length predictions \<le> k \<longrightarrow>
             mset (top_indices argsort k predictions) = mset [0..<length predictions] \<and>
             mset (map (\<lambda>i. all_product_ids ! i) (top_indices argsort k predictions))
               = mset all_product_ids"
  proof (intro impI conjI)
    assume le: "length predictions \<le> k"
    show all: "mset (top_indices argsort k predictions) = mset [0..<length predictions]"
      by (rule top_indices_all[OF assms(1) le])
    show "mset (map (\<lambda>i. all_product_ids ! i) (top_indices argsort k predictions))
               = mset all_product_ids"
      by (rule mset_map_nth_perm) (use all assms(2) in simp)
  qed
qed

theorem select_candidates_top_k_witness:
  "argsort_spec stable_argsort \<and>
   length [''P0001'', ''P0002'', ''P0003''] = length [0.7, 0.9, 0.8 :: real] \<and>
   top_indices stable_argsort 2 [0.7, 0.9, 0.8] = [1, 2] \<and>
   select_candidates stable_argsort 2 [0.7, 0.9, 0.8] [''P0001'', ''P0002'', ''P0003'']
     = Inr ([0.9, 0.8], [''P0002'', ''P0003'']) \<and>
   top_indices stable_argsort 5 [0.7, 0.9, 0.8] = [1, 2, 0] \<and>
   select_candidates stable_argsort 5 [0.7, 0.9, 0.8] [''P0001'', ''P0002'', ''P0003'']
     = Inr ([0.9, 0.8, 0.7], [''P0002'', ''P0003'', ''P0001''])"
proof -
  have len: "length [''P0001'', ''P0002'', ''P0003''] = length [0.7, 0.9, 0.8 :: real]" by simp
  have t2: "top_indices stable_argsort 2 [0.7, 0.9, 0.8] = [1, 2]"
    by (simp add: top_indices_def stable_argsort_def upt_rec)
  have t5: "top_indices stable_argsort 5 [0.7, 0.9, 0.8] = [1, 2, 0]"
    by (simp add: top_indices_def stable_argsort_def upt_rec)
  from select_candidates_top_k[OF stable_argsort_spec len, of 2]
  have s2: "select_candidates stable_argsort 2 [0.7, 0.9, 0.8] [''P0001'', ''P0002'', ''P0003'']
     = Inr ([0.9, 0.8], [''P0002'', ''P0003''])"
    unfolding t2 by simp
  from select_candidates_top_k[OF stable_argsort_spec len, of 5]
  have s5: "select_candidates stable_argsort 5 [0.7, 0.9, 0.8] [''P0001'', ''P0002'', ''P0003'']
     = Inr ([0.9, 0.8, 0.7], [''P0002'', ''P0003'', ''P0001''])"
    unfolding t5 by simp
  show ?thesis using stable_argsort_spec len t2 t5 s2 s5 by blast
qed

section \<open>The handler\<close>

lemma build_inputs_trace [simp]: "build_inputs (trace_update f s) = build_inputs s"
  by (rule ext, rule ext) (simp add: build_inputs_def Let_def split: sum.splits)

lemma rerank_loop_trace [simp]: "rerank_loop (trace_update f s) cs acc = rerank_loop s cs acc"
  by (induction s cs acc rule: rerank_loop.induct) (simp_all add: Let_def split: sum.splits)

lemma rerank_trace [simp]: "rerank (trace_update f s) cs = rerank s cs"
  by (simp add: rerank_def)

text \<open>The run of a request that passes every lookup.\<close>

lemma handler_success:
  assumes "map_of (retailer_map s) (retailer_id request) = Some retailer_idx"
    and "map_of (retailer_profiles s) (retailer_id request) = Some retailer_data"
    and "build_inputs s retailer_idx retailer_data = Inr inputs"
    and "select_candidates argsort (TOP_K_CANDIDATES s) (predict inputs)
           (map fst (product_map s)) = Inr (candidate_predictions, candidate_pids)"
    and "rerank s (zip candidate_predictions candidate_pids) = Inr final_scores"
  shows "get_hybrid_recommendations predict argsort request s =
           (Inr (final_output (FINAL_LIST_SIZE s) final_scores),
            s\<lparr>trace := trace s @ [Predict inputs,
                 Print_candidate_generation (length candidate_pids),
                 Print_re_ranking (FINAL_LIST_SIZE s)]\<rparr>)"
  using assms by (simp add: get_hybrid_recommendations_def dict_get_Some Let_def)

lemma length_final_output: "length (final_output n xs) = min n (length xs)"
  by (simp add: final_output_def min.commute)

lemma final_rank_final_output:
  "map final_rank (final_output n xs) = [1..<Suc (min n (length xs))]"
proof -
  have "map final_rank (final_output n xs) = map (Suc \<circ> fst) (enumerate 0 (take n xs))"
    by (simp add: final_output_def split_def comp_def)
  also have "\<dots> = map Suc (map fst (enumerate 0 (take n xs)))"
    by (simp only: map_map)
  also have "\<dots> = map Suc [0..<min n (length xs)]"
    by (simp add: min.commute)
  also have "\<dots> = [1..<Suc (min n (length xs))]"
    by (simp only: map_Suc_upt One_nat_def)
  finally show ?thesis .
qed

lemma in_set_enumerateD: "(i, x) \<in> set (enumerate m ys) \<Longrightarrow> x \<in> set ys"
  by (auto simp: enumerate_eq_zip dest: set_zip_rightD)

lemma final_output_entry:
  assumes "r \<in> set (final_output n xs)"
  shows "\<exists>final_score. (product_id r, final_score, predicted_score r) \<in> set xs"
proof -
  from assms obtain rank pid final_score model_score
    where "(rank, pid, final_score, model_score) \<in> set (enumerate 0 (take n xs))"
      and r: "r = \<lparr>product_id = pid, predicted_score = model_score, final_rank = rank + 1\<rparr>"
    by (auto simp: final_output_def)
  then have "(pid, final_score, model_score) \<in> set (take n xs)"
    by (auto dest: in_set_enumerateD)
  then have "(pid, final_score, model_score) \<in> set xs" by (rule in_set_takeD)
  then show ?thesis using r by auto
qed

lemma build_inputs_ok:
  assumes "fst ` set (product_map s) \<subseteq> fst ` set (product_vectors_data s)"
    and "fst ` set (product_map s) \<subseteq> fst ` set (product_catalog s)"
  shows "\<exists>inputs. build_inputs s retailer_idx retailer_data = Inr inputs \<and>
           length (p_id_input inputs) = length (product_map s)"
proof -
  from dict_get_all_ok[of "map fst (product_map s)" "product_vectors_data s"] assms(1)
  obtain vectors where "dict_get_all (product_vectors_data s) (map fst (product_map s)) = Inr vectors"
    by auto
  moreover
  from dict_get_all_ok[of "map fst (product_map s)" "product_catalog s"] assms(2)
  obtain rows where "dict_get_all (product_catalog s) (map fst (product_map s)) = Inr rows"
    by auto
  ultimately show ?thesis by (simp add: build_inputs_def Let_def)
qed

lemma zip_map_nth: "zip (map f idx) (map g idx) = map (\<lambda>i. (f i, g i)) idx"
  by (induction idx) simp_all

text \<open>
  Claim C3. For a retailer that is in the retailer map and has a profile, a catalog in
  which every product of the product map has a vector and a row, and a scorer that
  returns one score per product, the handler returns exactly
  \<open>min FINAL_LIST_SIZE (min TOP_K_CANDIDATES n)\<close> results for the \<open>n\<close> products; their
  ranks are 1, 2, ..., N in this order, and each result carries the score the model
  gave to its product.
\<close>

theorem recommend_size_and_ranks:
  assumes rm: "map_of (retailer_map s) (retailer_id request) = Some retailer_idx"
    and rp: "map_of (retailer_profiles s) (retailer_id request) = Some retailer_data"
    and vec: "fst ` set (product_map s) \<subseteq> fst ` set (product_vectors_data s)"
    and cat: "fst ` set (product_map s) \<subseteq> fst ` set (product_catalog s)"
    and spec: "argsort_spec argsort"
    and scorer: "\<forall>inputs. length (predict inputs) = length (p_id_input inputs)"
  shows "\<exists>inputs results.
           build_inputs s retailer_idx retailer_data = Inr inputs \<and>
           fst (get_hybrid_recommendations predict argsort request s) = Inr results \<and>
           length results
             = min (FINAL_LIST_SIZE s) (min (TOP_K_CANDIDATES s) (length (product_map s))) \<and>
           map final_rank results = [1..<Suc (length results)] \<and>
           (\<forall>r \<in> set results. \<exists>i < length (product_map s).
              product_id r = fst (product_map s ! i) \<and> predicted_score r = predict inputs ! i)"
proof -
  let ?ids = "map fst (product_map s)"
  let ?n = "length (product_map s)"
  from build_inputs_ok[OF vec cat] obtain inputs
    where inputs: "build_inputs s retailer_idx retailer_data = Inr inputs"
      and n: "length (p_id_input inputs) = ?n" by blast
  let ?ps = "predict inputs"
  let ?ti = "top_indices argsort (TOP_K_CANDIDATES s) ?ps"
  let ?cands = "map (\<lambda>i. (?ps ! i, ?ids ! i)) ?ti"
  have len: "length ?ids = length ?ps" using scorer n by simp
  have sel: "select_candidates argsort (TOP_K_CANDIDATES s) ?ps ?ids
               = Inr (map (\<lambda>i. ?ps ! i) ?ti, map (\<lambda>i. ?ids ! i) ?ti)"
    by (rule select_candidates_ok[OF spec len])
  have bound: "\<forall>i \<in> set ?ti. i < ?n"
    using top_indices_bound[OF spec] len by fastforce
  have zip: "zip (map (\<lambda>i. ?ps ! i) ?ti) (map (\<lambda>i. ?ids ! i) ?ti) = ?cands"
    by (rule zip_map_nth)
  have "\<forall>c \<in> set ?cands. snd c \<in> fst ` set (product_catalog s)"
  proof
    fix c assume "c \<in> set ?cands"
    then obtain i where "i \<in> set ?ti" and c: "c = (?ps ! i, ?ids ! i)" by auto
    with bound have "?ids ! i \<in> set ?ids" by simp
    then show "snd c \<in> fst ` set (product_catalog s)" using cat c by auto
  qed
  from rerank_loop_ok[OF this, of "[]"] obtain fs
    where fs: "rerank_loop s ?cands [] = Inr fs" by blast
  let ?ranked = "sort_reverse (\<lambda>x. fst (snd x)) fs"
  have rr: "rerank s (zip (map (\<lambda>i. ?ps ! i) ?ti) (map (\<lambda>i. ?ids ! i) ?ti)) = Inr ?ranked"
    unfolding zip by (simp add: rerank_def fs)
  let ?results = "final_output (FINAL_LIST_SIZE s) ?ranked"
  have run: "fst (get_hybrid_recommendations predict argsort request s) = Inr ?results"
    using handler_success[where predict = predict and argsort = argsort, OF rm rp inputs sel rr]
    by simp
  from rerank_loop_entries[OF fs] have fs_len: "length fs = length ?ti"
    and fs_nth: "\<forall>j < length ?ti. fst (fs ! j) = snd (?cands ! j)
                   \<and> snd (snd (fs ! j)) = fst (?cands ! j)"
    by auto
  have size: "length ?results
                = min (FINAL_LIST_SIZE s) (min (TOP_K_CANDIDATES s) ?n)"
    using len by (simp add: length_final_output length_sort_reverse fs_len
        top_indices_length[OF spec])
  have ranks: "map final_rank ?results = [1..<Suc (length ?results)]"
    by (simp add: final_rank_final_output length_final_output)
  have scores: "\<forall>r \<in> set ?results. \<exists>i < ?n.
              product_id r = fst (product_map s ! i) \<and> predicted_score r = ?ps ! i"
  proof
    fix r assume "r \<in> set ?results"
    from final_output_entry[OF this] obtain final_score
      where "(product_id r, final_score, predicted_score r) \<in> set fs"
      by (auto simp: set_sort_reverse)
    then obtain j where j: "j < length fs"
      and e: "fs ! j = (product_id r, final_score, predicted_score r)"
      by (auto simp: in_set_conv_nth)
    from j fs_len have jt: "j < length ?ti" by simp
    then have ti: "?ti ! j < ?n" using bound by simp
    from fs_nth jt e have "product_id r = ?ids ! (?ti ! j)" "predicted_score r = ?ps ! (?ti ! j)"
      by auto
    then show "\<exists>i < ?n. product_id r = fst (product_map s ! i) \<and> predicted_score r = ?ps ! i"
      using ti by auto
  qed
  from inputs run size ranks scores show ?thesis by blast
qed

lemma example_build_inputs:
  "build_inputs example_state 0 \<lparr>StoreType = 0, LocationTier = 0\<rparr> =
     Inr \<lparr>r_id_input = [0, 0, 0], st_input = [0, 0, 0], lt_input = [0, 0, 0],
          p_id_input = [0, 1, 2], llm_vec_input = [[0], [0], [0]], cat_input = [0, 1, 2],
          margin_input = [0.1, 0.4, 0.25], stock_input = [10, 200, 60]\<rparr>"
  by (simp add: build_inputs_def example_state_def module_globals_def dict_get_def)

theorem recommend_size_and_ranks_witness:
  "map_of (retailer_map example_state) (retailer_id \<lparr>retailer_id = ''R001''\<rparr>) = Some 0 \<and>
   map_of (retailer_profiles example_state) (retailer_id \<lparr>retailer_id = ''R001''\<rparr>)
     = Some \<lparr>StoreType = 0, LocationTier = 0\<rparr> \<and>
   fst ` set (product_map example_state) \<subseteq> fst ` set (product_vectors_data example_state) \<and>
   fst ` set (product_map example_state) \<subseteq> fst ` set (product_catalog example_state) \<and>
   argsort_spec stable_argsort \<and>
   (\<forall>inputs. length (example_predict inputs) = length (p_id_input inputs)) \<and>
   (\<exists>results.
      fst (get_hybrid_recommendations example_predict stable_argsort
             \<lparr>retailer_id = ''R001''\<rparr> example_state) = Inr results \<and>
      length results = min 10 (min 500 3) \<and>
      map final_rank results = [1, 2, 3])"
proof -
  have rm: "map_of (retailer_map example_state) (retailer_id \<lparr>retailer_id = ''R001''\<rparr>) = Some 0"
    by (simp add: example_state_def)
  have rp: "map_of (retailer_profiles example_state) (retailer_id \<lparr>retailer_id = ''R001''\<rparr>)
     = Some \<lparr>StoreType = 0, LocationTier = 0\<rparr>"
    by (simp add: example_state_def)
  have vec: "fst ` set (product_map example_state)
               \<subseteq> fst ` set (product_vectors_data example_state)"
    by (simp add: example_state_def)
  have cat: "fst ` set (product_map example_state) \<subseteq> fst ` set (product_catalog example_state)"
    by (simp add: example_state_def)
  have scorer: "\<forall>inputs. length (example_predict inputs) = length (p_id_input inputs)"
    by (simp add: example_predict_def)
  have sizes: "FINAL_LIST_SIZE example_state = 10" "TOP_K_CANDIDATES example_state = 500"
    "length (product_map example_state) = 3"
    by (simp_all add: example_state_def module_globals_def)
  from recommend_size_and_ranks[OF rm rp vec cat stable_argsort_spec scorer]
  obtain results where
    run: "fst (get_hybrid_recommendations example_predict stable_argsort
             \<lparr>retailer_id = ''R001''\<rparr> example_state) = Inr results"
    and size: "length results = min 10 (min 500 3)"
    and ranks: "map final_rank results = [1..<Suc (length results)]"
    unfolding sizes by blast
  from size have three: "length results = 3" by simp
  have "[1..<Suc 3] = [1, 2, 3::nat]" by (simp add: upt_rec)
  with ranks have "map final_rank results = [1, 2, 3]" unfolding three by simp
  with run size have ex: "\<exists>results.
      fst (get_hybrid_recommendations example_predict stable_argsort
             \<lparr>retailer_id = ''R001''\<rparr> example_state) = Inr results \<and>
      length results = min 10 (min 500 3) \<and>
      map final_rank results = [1, 2, 3]"
    by (intro exI[of _ results] conjI)
  show ?thesis
    by (intro conjI) (fact rm, fact rp, fact vec, fact cat, fact stable_argsort_spec,
        fact scorer, fact ex)
qed

section \<open>Unknown retailers\<close>

text \<open>
  Claim C7. For a retailer id that is not a key of \<^verbatim>\<open>retailer_map\<close> the handler
  raises the 404 exception "Retailer not found." and does nothing else: whatever the
  scorer and the sorting routine are, the state is returned as it was, so the model was
  not called and nothing was printed, and no result list is returned.
\<close>

theorem unknown_retailer_not_found:
  assumes "retailer_id request \<notin> fst ` set (retailer_map s)"
  shows "get_hybrid_recommendations predict argsort request s =
           (Inl (HTTPException 404 ''Retailer not found.''), s)"
proof -
  from assms have "map_of (retailer_map s) (retailer_id request) = None"
    by (simp add: map_of_eq_None_iff)
  then show ?thesis by (simp add: get_hybrid_recommendations_def)
qed

theorem unknown_retailer_not_found_witness:
  "retailer_id \<lparr>retailer_id = ''R999''\<rparr> \<notin> fst ` set (retailer_map example_state) \<and>
   get_hybrid_recommendations example_predict stable_argsort \<lparr>retailer_id = ''R999''\<rparr>
       example_state =
     (Inl (HTTPException 404 ''Retailer not found.''), example_state)"
proof -
  have a: "retailer_id \<lparr>retailer_id = ''R999''\<rparr> \<notin> fst ` set (retailer_map example_state)"
    by (simp add: example_state_def)
  from unknown_retailer_not_found[OF a] a show ?thesis by blast
qed

text \<open>
  Claim C10. The existence check reads \<^verbatim>\<open>retailer_map\<close> only. A retailer id that is a
  key of \<^verbatim>\<open>retailer_map\<close> and not of \<^verbatim>\<open>retailer_profiles\<close> passes the check, and the
  lookup of its profile on line 106 raises \<^verbatim>\<open>KeyError\<close>, not the 404 exception; the
  model is not called.
\<close>

theorem retailer_without_profile_key_error:
  assumes "retailer_id request \<in> fst ` set (retailer_map s)"
    and "retailer_id request \<notin> fst ` set (retailer_profiles s)"
  shows "get_hybrid_recommendations predict argsort request s =
           (Inl (KeyError (retailer_id request)), s) \<and>
         fst (get_hybrid_recommendations predict argsort request s)
           \<noteq> Inl (HTTPException 404 ''Retailer not found.'')"
proof -
  from assms(1) obtain retailer_idx
    where "map_of (retailer_map s) (retailer_id request) = Some retailer_idx"
    using in_keys_map_of by fastforce
  moreover from assms(2) have "map_of (retailer_profiles s) (retailer_id request) = None"
    by (simp add: map_of_eq_None_iff)
  ultimately show ?thesis
    by (simp add: get_hybrid_recommendations_def dict_get_None)
qed

theorem retailer_without_profile_key_error_witness:
  "retailer_id \<lparr>retailer_id = ''R002''\<rparr> \<in> fst ` set (retailer_map orphan_state) \<and>
   retailer_id \<lparr>retailer_id = ''R002''\<rparr> \<notin> fst ` set (retailer_profiles orphan_state) \<and>
   get_hybrid_recommendations example_predict stable_argsort \<lparr>retailer_id = ''R002''\<rparr>
       orphan_state =
     (Inl (KeyError ''R002''), orphan_state)"
proof -
  have a: "retailer_id \<lparr>retailer_id = ''R002''\<rparr> \<in> fst ` set (retailer_map orphan_state)"
    by (simp add: orphan_state_def)
  have b: "retailer_id \<lparr>retailer_id = ''R002''\<rparr> \<notin> fst ` set (retailer_profiles orphan_state)"
    by (simp add: orphan_state_def example_state_def)
  from retailer_without_profile_key_error[OF a b, of example_predict stable_argsort]
  have "get_hybrid_recommendations example_predict stable_argsort \<lparr>retailer_id = ''R002''\<rparr>
       orphan_state = (Inl (KeyError ''R002''), orphan_state)"
    by simp
  with a b show ?thesis by blast
qed

section \<open>The request as a function of its inputs\<close>

text \<open>Every way out of the handler returns the state it was given, with effects
  appended to the trace.\<close>

lemma handler_state:
  "\<exists>t. snd (get_hybrid_recommendations predict argsort request s) = s\<lparr>trace := trace s @ t\<rparr>"
proof (cases "map_of (retailer_map s) (retailer_id request)")
  case None
  then have "snd (get_hybrid_recommendations predict argsort request s) = s\<lparr>trace := trace s @ []\<rparr>"
    by (simp add: get_hybrid_recommendations_def)
  then show ?thesis by blast
next
  case (Some retailer_idx)
  note rm = this
  show ?thesis
  proof (cases "dict_get (retailer_profiles s) (retailer_id request)")
    case (Inl e)
    with rm have "snd (get_hybrid_recommendations predict argsort request s)
                    = s\<lparr>trace := trace s @ []\<rparr>"
      by (simp add: get_hybrid_recommendations_def)
    then show ?thesis by blast
  next
    case (Inr retailer_data)
    note rp = this
    show ?thesis
    proof (cases "build_inputs s retailer_idx retailer_data")
      case (Inl e)
      with rm rp have "snd (get_hybrid_recommendations predict argsort request s)
                         = s\<lparr>trace := trace s @ []\<rparr>"
        by (simp add: get_hybrid_recommendations_def)
      then show ?thesis by blast
    next
      case (Inr inputs)
      note bi = this
      show ?thesis
      proof (cases "select_candidates argsort (TOP_K_CANDIDATES s) (predict inputs)
                      (map fst (product_map s))")
        case (Inl e)
        with rm rp bi have "snd (get_hybrid_recommendations predict argsort request s)
                              = s\<lparr>trace := trace s @ [Predict inputs]\<rparr>"
          by (simp add: get_hybrid_recommendations_def Let_def)
        then show ?thesis by blast
      next
        case (Inr cands)
        obtain candidate_predictions candidate_pids
          where c: "cands = (candidate_predictions, candidate_pids)" by (cases cands)
        show ?thesis
        proof (cases "rerank s (zip candidate_predictions candidate_pids)")
          case (Inl e)
          with rm rp bi Inr c
          have "snd (get_hybrid_recommendations predict argsort request s)
                  = s\<lparr>trace := trace s @ [Predict inputs,
                        Print_candidate_generation (length candidate_pids)]\<rparr>"
            by (simp add: get_hybrid_recommendations_def Let_def)
          then show ?thesis by blast
        next
          case (Inr final_scores)
          with rm rp bi \<open>select_candidates argsort (TOP_K_CANDIDATES s) (predict inputs)
                      (map fst (product_map s)) = Inr cands\<close> c
          have "snd (get_hybrid_recommendations predict argsort request s)
                  = s\<lparr>trace := trace s @ [Predict inputs,
                        Print_candidate_generation (length candidate_pids),
                        Print_re_ranking (FINAL_LIST_SIZE s)]\<rparr>"
            by (simp add: get_hybrid_recommendations_def Let_def)
          then show ?thesis by blast
        qed
      qed
    qed
  qed
qed

text \<open>
  Claim C9. A request only reads the shared data: whether it returns a list or raises,
  the state after it has the same product catalog, retailer profiles, retailer map,
  product map, product vectors, sizes and weights as the state before it. Only the
  trace of effects grows.
\<close>

theorem request_reads_only:
  "\<exists>s' t. snd (get_hybrid_recommendations predict argsort request s) = s' \<and>
     product_catalog s' = product_catalog s \<and>
     retailer_profiles s' = retailer_profiles s \<and>
     retailer_map s' = retailer_map s \<and>
     product_map s' = product_map s \<and>
     product_vectors_data s' = product_vectors_data s \<and>
     W_MODEL s' = W_MODEL s \<and> W_PROFIT s' = W_PROFIT s \<and> W_STOCK s' = W_STOCK s \<and>
     TOP_K_CANDIDATES s' = TOP_K_CANDIDATES s \<and> FINAL_LIST_SIZE s' = FINAL_LIST_SIZE s \<and>
     trace s' = trace s @ t"
proof -
  from handler_state obtain t
    where "snd (get_hybrid_recommendations predict argsort request s) = s\<lparr>trace := trace s @ t\<rparr>"
    by blast
  then show ?thesis by simp
qed

theorem request_reads_only_witness:
  "\<exists>s' t. snd (get_hybrid_recommendations example_predict stable_argsort
               \<lparr>retailer_id = ''R001''\<rparr> example_state) = s' \<and>
     product_catalog s' = product_catalog example_state \<and>
     retailer_profiles s' = retailer_profiles example_state \<and>
     retailer_map s' = retailer_map example_state \<and>
     product_map s' = product_map example_state \<and>
     product_vectors_data s' = product_vectors_data example_state \<and>
     W_MODEL s' = W_MODEL example_state \<and> W_PROFIT s' = W_PROFIT example_state \<and>
     W_STOCK s' = W_STOCK example_state \<and>
     TOP_K_CANDIDATES s' = TOP_K_CANDIDATES example_state \<and>
     FINAL_LIST_SIZE s' = FINAL_LIST_SIZE example_state \<and>
     trace s' = trace example_state @ t"
  by (rule request_reads_only)

lemma handler_result_trace:
  "fst (get_hybrid_recommendations predict argsort request (s\<lparr>trace := t\<rparr>))
     = fst (get_hybrid_recommendations predict argsort request s)"
  by (simp add: get_hybrid_recommendations_def Let_def
      split: option.splits sum.splits prod.splits)

lemma handler_result_scores:
  assumes "\<And>retailer_idx retailer_data inputs.
      map_of (retailer_map s) (retailer_id request) = Some retailer_idx \<Longrightarrow>
      map_of (retailer_profiles s) (retailer_id request) = Some retailer_data \<Longrightarrow>
      build_inputs s retailer_idx retailer_data = Inr inputs \<Longrightarrow>
      predict1 inputs = predict2 inputs"
  shows "fst (get_hybrid_recommendations predict1 argsort request s)
           = fst (get_hybrid_recommendations predict2 argsort request s)"
proof (cases "map_of (retailer_map s) (retailer_id request)")
  case None
  then show ?thesis by (simp add: get_hybrid_recommendations_def)
next
  case (Some retailer_idx)
  note rm = this
  show ?thesis
  proof (cases "map_of (retailer_profiles s) (retailer_id request)")
    case None
    with rm show ?thesis by (simp add: get_hybrid_recommendations_def dict_get_None)
  next
    case (Some retailer_data)
    note rp = this
    show ?thesis
    proof (cases "build_inputs s retailer_idx retailer_data")
      case (Inl e)
      with rm rp show ?thesis by (simp add: get_hybrid_recommendations_def dict_get_Some)
    next
      case (Inr inputs)
      from assms[OF rm rp Inr] have "predict1 inputs = predict2 inputs" .
      with rm rp Inr show ?thesis
        by (simp add: get_hybrid_recommendations_def dict_get_Some Let_def
            split: sum.splits prod.splits)
    qed
  qed
qed

lemma build_inputs_p_id:
  "build_inputs s retailer_idx retailer_data = Inr inputs \<Longrightarrow>
     p_id_input inputs = map snd (product_map s)"
  by (auto simp: build_inputs_def Let_def split: sum.splits)

text \<open>
  Claim C8. The ranked output of a request is a function of the retailer id, the
  tables, sizes and weights of the state, and the scores: two calls with the same
  request on states that agree on everything but the trace of earlier effects, with
  scorers that give the same scores to the batch of this request (and the same sorting
  routine), return the same value, that is the same products, scores and ranks in the
  same order, or the same exception.
\<close>

theorem recommend_deterministic:
  assumes "\<And>retailer_idx retailer_data inputs.
      map_of (retailer_map s) (retailer_id request) = Some retailer_idx \<Longrightarrow>
      map_of (retailer_profiles s) (retailer_id request) = Some retailer_data \<Longrightarrow>
      build_inputs s retailer_idx retailer_data = Inr inputs \<Longrightarrow>
      predict1 inputs = predict2 inputs"
  shows "fst (get_hybrid_recommendations predict1 argsort request (s\<lparr>trace := t1\<rparr>))
           = fst (get_hybrid_recommendations predict2 argsort request (s\<lparr>trace := t2\<rparr>))"
proof -
  have "fst (get_hybrid_recommendations predict1 argsort request (s\<lparr>trace := t1\<rparr>))
          = fst (get_hybrid_recommendations predict1 argsort request s)"
    by (rule handler_result_trace)
  also have "\<dots> = fst (get_hybrid_recommendations predict2 argsort request s)"
    by (rule handler_result_scores) (rule assms)
  also have "\<dots> = fst (get_hybrid_recommendations predict2 argsort request (s\<lparr>trace := t2\<rparr>))"
    by (rule handler_result_trace[symmetric])
  finally show ?thesis .
qed

theorem recommend_deterministic_witness:
  "fst (get_hybrid_recommendations example_predict stable_argsort \<lparr>retailer_id = ''R001''\<rparr>
          (example_state\<lparr>trace := []\<rparr>))
     = fst (get_hybrid_recommendations table_predict stable_argsort \<lparr>retailer_id = ''R001''\<rparr>
          (example_state\<lparr>trace := [Print_re_ranking 10]\<rparr>)) \<and>
   fst (get_hybrid_recommendations table_predict stable_argsort \<lparr>retailer_id = ''R001''\<rparr>
          (example_state\<lparr>trace := [Print_re_ranking 10]\<rparr>))
     = Inr [\<lparr>product_id = ''P0002'', predicted_score = 0.8, final_rank = 1\<rparr>,
            \<lparr>product_id = ''P0003'', predicted_score = 0.7, final_rank = 2\<rparr>,
            \<lparr>product_id = ''P0001'', predicted_score = 0.9, final_rank = 3\<rparr>]"
proof -
  have agree: "example_predict inputs = table_predict inputs"
    if "build_inputs example_state retailer_idx retailer_data = Inr inputs"
    for retailer_idx retailer_data inputs
  proof -
    from build_inputs_p_id[OF that] have "p_id_input inputs = [0, 1, 2]"
      by (simp add: example_state_def)
    then show ?thesis by (simp add: example_predict_def table_predict_def)
  qed
  have eq: "fst (get_hybrid_recommendations example_predict stable_argsort
                   \<lparr>retailer_id = ''R001''\<rparr> (example_state\<lparr>trace := []\<rparr>))
     = fst (get_hybrid_recommendations table_predict stable_argsort \<lparr>retailer_id = ''R001''\<rparr>
          (example_state\<lparr>trace := [Print_re_ranking 10]\<rparr>))"
    by (rule recommend_deterministic) (rule agree)
  have "example_state\<lparr>trace := []\<rparr> = example_state"
    by (simp add: example_state_def module_globals_def)
  with eq example_run show ?thesis by simp
qed

section \<open>Margin normalisation\<close>

subsection \<open>Rounding to double precision\<close>

lemma bitlen_pos: "0 < a \<Longrightarrow> 1 \<le> bitlen a"
  using bitlen_eq_zero_iff[of a] bitlen_nonneg[of a] by linarith

lemma bitlen_bounds_rat:
  assumes "0 < a"
  shows "(2::rat) powi (bitlen a - 1) \<le> of_int a" and "(of_int a :: rat) < 2 powi (bitlen a)"
proof -
  from bitlen_bounds[OF assms] have lo: "2 ^ nat (bitlen a - 1) \<le> a" and hi: "a < 2 ^ nat (bitlen a)"
    by auto
  from lo have "(of_int (2 ^ nat (bitlen a - 1)) :: rat) \<le> of_int a" by (simp only: of_int_le_iff)
  then show "(2::rat) powi (bitlen a - 1) \<le> of_int a"
    using bitlen_pos[OF assms] by (simp add: power_int_def)
  from hi have "(of_int a :: rat) < of_int (2 ^ nat (bitlen a))" by (simp only: of_int_less_iff)
  then show "(of_int a :: rat) < 2 powi (bitlen a)"
    using bitlen_nonneg[of a] by (simp add: power_int_def)
qed

lemma binade_bounds:
  assumes "x \<noteq> 0"
  shows "2 powi (binade x) \<le> \<bar>x\<bar> \<and> \<bar>x\<bar> < 2 powi (binade x + 1)"
proof -
  obtain a b where q: "quotient_of \<bar>x\<bar> = (a, b)" by (cases "quotient_of \<bar>x\<bar>")
  then have b: "0 < b" by (rule quotient_of_denom_pos)
  from q have x: "\<bar>x\<bar> = of_int a / of_int b" by (rule quotient_of_div)
  from assms have "0 < \<bar>x\<bar>" by simp
  with x b have a: "0 < a" by (simp add: zero_less_divide_iff)
  let ?g = "bitlen a - bitlen b"
  have bpos: "(0::rat) < of_int b" using b by simp
  have p: "(0::rat) < 2 powi k" for k by simp
  have "\<bar>x\<bar> < 2 powi (bitlen a) / of_int b"
    unfolding x using bitlen_bounds_rat(2)[OF a] bpos by (simp add: divide_strict_right_mono)
  also have "\<dots> \<le> 2 powi (bitlen a) / 2 powi (bitlen b - 1)"
    using bitlen_bounds_rat(1)[OF b] p by (intro divide_left_mono) (auto intro: mult_pos_pos bpos)
  also have "\<dots> = 2 powi (?g + 1)"
    by (simp add: power_int_diff[symmetric] algebra_simps)
  finally have hi: "\<bar>x\<bar> < 2 powi (?g + 1)" .
  have "(2::rat) powi (?g - 1) = 2 powi (bitlen a - 1) / 2 powi (bitlen b)"
    by (simp add: power_int_diff[symmetric] algebra_simps)
  also have "\<dots> \<le> of_int a / 2 powi (bitlen b)"
    using bitlen_bounds_rat(1)[OF a] by (simp add: divide_right_mono)
  also have "\<dots> \<le> of_int a / of_int b"
    using bitlen_bounds_rat(2)[OF b] a bpos by (intro divide_left_mono) (auto intro: mult_pos_pos)
  finally have lo: "2 powi (?g - 1) \<le> \<bar>x\<bar>" unfolding x .
  have bin: "binade x = (if \<bar>x\<bar> < 2 powi ?g then ?g - 1 else ?g)"
    by (simp add: binade_def q)
  show ?thesis
  proof (cases "\<bar>x\<bar> < 2 powi ?g")
    case True
    then show ?thesis using lo bin by simp
  next
    case False
    then show ?thesis using hi bin by simp
  qed
qed
lemma round_half_even_ge:
  assumes "of_int n \<le> y"
  shows "n \<le> round_half_even y"
proof -
  from assms have "n \<le> \<lfloor>y\<rfloor>" by (simp add: le_floor_iff)
  then show ?thesis by (simp add: round_half_even_def Let_def)
qed

lemma round_half_even_le:
  assumes "y \<le> of_int n"
  shows "round_half_even y \<le> n"
proof (cases "y = of_int n")
  case True
  then show ?thesis by (simp add: round_half_even_def)
next
  case False
  with assms have "y < of_int n" by simp
  then have "\<lfloor>y\<rfloor> < n" by (simp add: floor_less_iff)
  then show ?thesis by (simp add: round_half_even_def Let_def)
qed

lemma round_half_even_above_half:
  assumes "of_int n + 1 / 2 < y"
  shows "n + 1 \<le> round_half_even y"
proof (cases "n + 1 \<le> \<lfloor>y\<rfloor>")
  case True
  then show ?thesis by (simp add: round_half_even_def Let_def)
next
  case False
  moreover from assms have "of_int n \<le> y" by simp
  then have "n \<le> \<lfloor>y\<rfloor>" by (simp add: le_floor_iff)
  ultimately have fl: "\<lfloor>y\<rfloor> = n" by simp
  with assms have "1 / 2 < y - of_int \<lfloor>y\<rfloor>" by simp
  then show ?thesis using fl by (simp add: round_half_even_def Let_def)
qed

lemma ulp_pos: "(0::rat) < 2 powi k"
  by simp

lemma two_powi_52: "(2::rat) powi e / 2 powi (e - 52) = 4503599627370496"
proof -
  have "(2::rat) powi (e - (e - 52)) = 2 powi e / 2 powi (e - 52)"
    by (rule power_int_diff) simp
  then have "(2::rat) powi e / 2 powi (e - 52) = 2 powi (e - (e - 52))"
    by (rule sym)
  also have "\<dots> = 2 powi 52" by simp
  also have "\<dots> = 4503599627370496" by (simp add: power_int_def)
  finally show ?thesis .
qed

text \<open>Rounding keeps the sign and the binade.\<close>

lemma f64_round_neg:
  assumes "x < 0"
  shows "f64_round x < 0"
proof -
  let ?u = "(2::rat) powi (binade x - 52)"
  from assms have nz: "x \<noteq> 0" by simp
  from binade_bounds[OF nz] assms have "2 powi (binade x) \<le> - x" by simp
  then have "2 powi (binade x) / ?u \<le> - x / ?u"
    by (intro divide_right_mono) simp_all
  then have "x / ?u \<le> of_int (- 4503599627370496)" by (simp add: two_powi_52)
  then have "round_half_even (x / ?u) \<le> - 4503599627370496" by (rule round_half_even_le)
  then have "round_half_even (x / ?u) < 0" by simp
  then have "(of_int (round_half_even (x / ?u)) :: rat) < 0" by simp
  then have "of_int (round_half_even (x / ?u)) * ?u < 0"
    by (simp add: mult_less_0_iff)
  then show ?thesis using nz by (simp add: f64_round_def Let_def)
qed

lemma f64_round_pos:
  assumes "0 < x"
  shows "2 powi (binade x) \<le> f64_round x"
proof -
  let ?u = "(2::rat) powi (binade x - 52)"
  from assms have nz: "x \<noteq> 0" by simp
  from binade_bounds[OF nz] assms have "2 powi (binade x) \<le> x" by simp
  then have "2 powi (binade x) / ?u \<le> x / ?u"
    by (intro divide_right_mono) simp_all
  then have "of_int 4503599627370496 \<le> x / ?u" by (simp add: two_powi_52)
  then have "4503599627370496 \<le> round_half_even (x / ?u)" by (rule round_half_even_ge)
  then have "(4503599627370496 :: rat) \<le> of_int (round_half_even (x / ?u))"
    by (metis of_int_le_iff of_int_numeral)
  then have "4503599627370496 * ?u \<le> of_int (round_half_even (x / ?u)) * ?u"
    by (intro mult_right_mono) simp_all
  moreover have "4503599627370496 * ?u = 2 powi (binade x)"
    using two_powi_52[of "binade x"] by (simp add: field_simps)
  ultimately show ?thesis using nz by (simp add: f64_round_def Let_def)
qed

lemma binade_ge:
  assumes "2 powi k \<le> x"
  shows "k \<le> binade x"
proof -
  have pos: "0 < x" using assms ulp_pos[of k] by linarith
  from pos have "x < 2 powi (binade x + 1)" using binade_bounds[of x] by simp
  with assms have lt: "(2::rat) powi k < 2 powi (binade x + 1)" by simp
  have "k < binade x + 1"
  proof (rule ccontr)
    assume "\<not> k < binade x + 1"
    then have "binade x + 1 \<le> k" by simp
    then have "(2::rat) powi (binade x + 1) \<le> 2 powi k" by (rule power_int_increasing) simp
    with lt show False by simp
  qed
  then show ?thesis by simp
qed

lemma f64_round_ge_power:
  assumes "2 powi k \<le> x"
  shows "2 powi k \<le> f64_round x"
proof -
  have pos: "0 < x" using assms ulp_pos[of k] by linarith
  have "(2::rat) powi k \<le> 2 powi (binade x)"
    using binade_ge[OF assms] by (simp add: power_int_increasing)
  also have "\<dots> \<le> f64_round x" by (rule f64_round_pos[OF pos])
  finally show ?thesis .
qed

lemma f64_round_ge_one: "1 \<le> x \<Longrightarrow> 1 \<le> f64_round x"
  using f64_round_ge_power[of 0 x] by simp
subsection \<open>Line 160 in double precision\<close>

text \<open>The doubles written \<^verbatim>\<open>0.1\<close> and \<^verbatim>\<open>0.4\<close>, and their rounded difference
  \<^verbatim>\<open>0.30000000000000004\<close>.\<close>

lemma f64_tenth: "f64_round (1 / 10) = 3602879701896397 / 36028797018963968"
  by code_simp

lemma f64_four_tenths: "f64_round (4 / 10) = 3602879701896397 / 9007199254740992"
  by code_simp

lemma f64_divisor:
  "f64_sub (f64_round (4 / 10)) (f64_round (1 / 10)) = 1351079888211149 / 4503599627370496"
  by code_simp

text \<open>The exact difference \<open>0.4 - 0.1\<close> of the two doubles lies half way between two
  doubles and rounds up to the even one; so does every larger number.\<close>

lemma f64_round_above_difference:
  assumes "10808639105689191 / 36028797018963968 < x"
  shows "1351079888211149 / 4503599627370496 \<le> f64_round x"
proof -
  have quarter: "(2::rat) powi (- 2) = 1 / 4" by (simp add: power_int_def power2_eq_square)
  have half: "(2::rat) powi (- 1) = 1 / 2" by (simp add: power_int_def)
  from assms have pos: "0 < x" and nz: "x \<noteq> 0" by simp_all
  from assms have "2 powi (- 2) \<le> x" unfolding quarter by simp
  then have lo: "- 2 \<le> binade x" by (rule binade_ge)
  show ?thesis
  proof (cases "binade x = - 2")
    case True
    have u: "(2::rat) powi (binade x - 52) = 1 / 18014398509481984"
      unfolding True by (simp add: power_int_minus field_simps)
    from assms have "of_int 5404319552844595 + 1 / 2 < x / (1 / 18014398509481984)" by simp
    then have "5404319552844595 + 1 \<le> round_half_even (x / (1 / 18014398509481984))"
      by (rule round_half_even_above_half)
    then have "5404319552844596 \<le> round_half_even (x / (1 / 18014398509481984))" by simp
    then have "(5404319552844596 :: rat) \<le> of_int (round_half_even (x / (1 / 18014398509481984)))"
      by (metis of_int_le_iff of_int_numeral)
    then have "5404319552844596 * (1 / 18014398509481984)
                 \<le> of_int (round_half_even (x / (1 / 18014398509481984))) * (1 / 18014398509481984 :: rat)"
      by (intro mult_right_mono) simp_all
    then show ?thesis using nz by (simp add: f64_round_def Let_def u)
  next
    case False
    with lo have "- 1 \<le> binade x" by simp
    then have "(2::rat) powi (- 1) \<le> 2 powi (binade x)" by (rule power_int_increasing) simp
    also have "\<dots> \<le> f64_round x" by (rule f64_round_pos[OF pos])
    finally show ?thesis unfolding half by simp
  qed
qed

lemma f64_normalized_margin_below:
  assumes "m < f64_round (1 / 10)"
  shows "f64_normalized_margin m < 0"
proof -
  from assms have "m - f64_round (1 / 10) < 0" by simp
  then have "f64_sub m (f64_round (1 / 10)) < 0" unfolding f64_sub_def by (rule f64_round_neg)
  then have "f64_sub m (f64_round (1 / 10)) / (1351079888211149 / 4503599627370496) < 0"
    by (simp add: divide_less_0_iff)
  then show ?thesis
    unfolding f64_normalized_margin_def f64_divisor f64_div_def by (rule f64_round_neg)
qed

lemma f64_normalized_margin_above:
  assumes "f64_round (4 / 10) < m"
  shows "1 \<le> f64_normalized_margin m"
proof -
  from assms have "10808639105689191 / 36028797018963968 < m - f64_round (1 / 10)"
    unfolding f64_four_tenths f64_tenth by simp
  then have "1351079888211149 / 4503599627370496 \<le> f64_sub m (f64_round (1 / 10))"
    unfolding f64_sub_def by (rule f64_round_above_difference)
  then have "1 \<le> f64_sub m (f64_round (1 / 10)) / (1351079888211149 / 4503599627370496)"
    by simp
  then show ?thesis
    unfolding f64_normalized_margin_def f64_divisor f64_div_def by (rule f64_round_ge_one)
qed

lemma normalized_margin_points:
  "normalized_margin 0.1 = 0" "normalized_margin 0.4 = 1" "normalized_margin 0.25 = 0.5"
  by (simp_all add: normalized_margin_def)

lemma normalized_margin_below: "(normalized_margin m < 0) = (m < 0.1)"
  by (simp add: normalized_margin_def divide_less_0_iff)

lemma normalized_margin_above: "(1 < normalized_margin m) = (0.4 < m)"
  by (simp add: normalized_margin_def field_simps)

lemma f64_normalized_margin_points:
  "f64_normalized_margin (f64_round (1 / 10)) = 0"
  "f64_normalized_margin (f64_round (4 / 10)) = 1"
  "f64_normalized_margin (1 / 4) = 4503599627370495 / 9007199254740992"
  by code_simp+

text \<open>
  Claim C5, as the code has it. The claim reads: the normalisation is exact and not
  clamped, 0.1 gives 0.0, 0.4 gives 1.0, 0.25 gives 0.5, and a margin outside
  \<open>[0.1, 0.4]\<close> gives a value outside \<open>[0, 1]\<close>. In the double precision of
  line 160 this fails twice: the margin 0.25 gives 0.4999999999999999, which is
  \<open>1/2 - 1/2^53\<close>, and the double 0.4000000000000001, the next one above 0.4,
  gives exactly 1.0, a value inside \<open>[0, 1]\<close>.
\<close>

theorem f64_normalized_margin_counterexample:
  "f64_round (1 / 4) = 1 / 4 \<and>
   f64_normalized_margin (1 / 4) = 4503599627370495 / 9007199254740992 \<and>
   f64_normalized_margin (1 / 4) \<noteq> 1 / 2 \<and>
   f64_round (7205759403792795 / 18014398509481984) = 7205759403792795 / 18014398509481984 \<and>
   f64_round (4 / 10) < 7205759403792795 / 18014398509481984 \<and>
   f64_normalized_margin (7205759403792795 / 18014398509481984) = 1"
proof -
  have a: "f64_round (1 / 4) = 1 / 4" by code_simp
  have b: "f64_normalized_margin (1 / 4) = 4503599627370495 / 9007199254740992"
    by (rule f64_normalized_margin_points(3))
  have c: "f64_normalized_margin (1 / 4) \<noteq> 1 / 2" unfolding b by simp
  have d: "f64_round (7205759403792795 / 18014398509481984)
             = 7205759403792795 / 18014398509481984"
    by code_simp
  have e: "f64_round (4 / 10) < 7205759403792795 / 18014398509481984"
    unfolding f64_four_tenths by simp
  have f: "f64_normalized_margin (7205759403792795 / 18014398509481984) = 1" by code_simp
  show ?thesis by (intro conjI) (fact a, fact b, fact c, fact d, fact e, fact f)
qed

text \<open>
  Claim C5, amended. The normalisation is \<open>(profit_margin - 0.1) / (0.4 - 0.1)\<close> and
  is not clamped. In exact arithmetic it maps 0.1, 0.4 and 0.25 to 0, 1 and 0.5, a
  margin below 0.1 (and no other) to a negative value and a margin above 0.4 (and no
  other) to a value above 1. In double precision 0.1 gives exactly 0.0 and 0.4 exactly
  1.0, the margin 0.25 gives 4503599627370495/9007199254740992, every margin below the
  double 0.1 gives a negative value and every margin above the double 0.4 a value of
  at least 1.
\<close>

theorem margin_normalization_unclamped:
  "normalized_margin 0.1 = 0 \<and> normalized_margin 0.4 = 1 \<and> normalized_margin 0.25 = 0.5 \<and>
   (\<forall>m. (normalized_margin m < 0) = (m < 0.1)) \<and>
   (\<forall>m. (1 < normalized_margin m) = (0.4 < m)) \<and>
   f64_normalized_margin (f64_round (1 / 10)) = 0 \<and>
   f64_normalized_margin (f64_round (4 / 10)) = 1 \<and>
   f64_normalized_margin (1 / 4) = 4503599627370495 / 9007199254740992 \<and>
   (\<forall>m. m < f64_round (1 / 10) \<longrightarrow> f64_normalized_margin m < 0) \<and>
   (\<forall>m. f64_round (4 / 10) < m \<longrightarrow> 1 \<le> f64_normalized_margin m)"
proof (intro conjI allI impI)
  show "normalized_margin 0.1 = 0" by (rule normalized_margin_points(1))
  show "normalized_margin 0.4 = 1" by (rule normalized_margin_points(2))
  show "normalized_margin 0.25 = 0.5" by (rule normalized_margin_points(3))
  show "(normalized_margin m < 0) = (m < 0.1)" for m by (rule normalized_margin_below)
  show "(1 < normalized_margin m) = (0.4 < m)" for m by (rule normalized_margin_above)
  show "f64_normalized_margin (f64_round (1 / 10)) = 0"
    by (rule f64_normalized_margin_points(1))
  show "f64_normalized_margin (f64_round (4 / 10)) = 1"
    by (rule f64_normalized_margin_points(2))
  show "f64_normalized_margin (1 / 4) = 4503599627370495 / 9007199254740992"
    by (rule f64_normalized_margin_points(3))
  show "f64_normalized_margin m < 0" if "m < f64_round (1 / 10)" for m
    using that by (rule f64_normalized_margin_below)
  show "1 \<le> f64_normalized_margin m" if "f64_round (4 / 10) < m" for m
    using that by (rule f64_normalized_margin_above)
qed

theorem margin_normalization_unclamped_witness:
  "f64_round (5 / 100) < f64_round (1 / 10) \<and>
   f64_normalized_margin (f64_round (5 / 100)) < 0 \<and>
   f64_normalized_margin (f64_round (5 / 100)) = - (6004799503160661 / 36028797018963968) \<and>
   f64_round (4 / 10) < f64_round (7 / 10) \<and>
   1 \<le> f64_normalized_margin (f64_round (7 / 10)) \<and>
   f64_normalized_margin (f64_round (7 / 10)) = 4503599627370495 / 2251799813685248"
proof -
  have lo: "f64_round (5 / 100) < f64_round (1 / 10)" by code_simp
  have hi: "f64_round (4 / 10) < f64_round (7 / 10)" by code_simp
  have vlo: "f64_normalized_margin (f64_round (5 / 100)) = - (6004799503160661 / 36028797018963968)"
    by code_simp
  have vhi: "f64_normalized_margin (f64_round (7 / 10)) = 4503599627370495 / 2251799813685248"
    by code_simp
  from margin_normalization_unclamped
  have below: "\<forall>m. m < f64_round (1 / 10) \<longrightarrow> f64_normalized_margin m < 0"
    and above: "\<forall>m. f64_round (4 / 10) < m \<longrightarrow> 1 \<le> f64_normalized_margin m"
    by blast+
  have neg: "f64_normalized_margin (f64_round (5 / 100)) < 0"
    by (rule below[rule_format, OF lo])
  have big: "1 \<le> f64_normalized_margin (f64_round (7 / 10))"
    by (rule above[rule_format, OF hi])
  show ?thesis by (intro conjI) (fact lo, fact neg, fact vlo, fact hi, fact big, fact vhi)
qed

end
